theory Spec2Isabelle
  imports Complex_Main "HOL-Library.Word"
begin

section \<open>SpaceTranslatorRelayPlugin: data model\<close>

text \<open>
  The plugin reads raw PCM from an ffmpeg child process, and on a timer runs
  WAV conversion, speech recognition, translation and speech synthesis on what has
  accumulated; the synthesized audio goes through a queue to the Janus client in
  10 ms frames.

  JavaScript runs the plugin on one thread: the code between two \<open>await\<close>s is atomic.
  Every function below models such an atomic segment (or a chain of them, where
  nothing else touches the same state). What the outside world answers (environment
  variables, HTTP responses, exit codes of child processes) is a value of the record
  \<open>world\<close>; what the plugin does to the outside world (log lines, network calls,
  frames pushed, timers awaited) is a list of \<open>event\<close>s, in program order.
\<close>

type_synonym byte = "8 word"
type_synonym sample = "16 word"
type_synonym pcm = "sample list"
type_synonym addr = nat
type_synonym exn = string

datatype event =
    ConsoleWarn string
  | ConsoleError string
  | ConsoleLog string
  | LoggerInfo string
  | LoggerDebug string
  | LoggerWarn string
  | LoggerError string
  | Fetch string
  | Unlink string
  | PushLocalAudio addr pcm nat nat
  | SetTimeout nat

text \<open>
  What \<open>await fetch(...)\<close> and the reading of the response can do:
  \<^item> \<open>Rejected e\<close>: the promise of \<open>fetch\<close> rejects, the awaiting function throws \<open>e\<close>;
  \<^item> \<open>NotOk errText\<close>: \<open>resp.ok\<close> is false and \<open>await resp.text()\<close> gives \<open>errText\<close>;
  \<^item> \<open>NotOkUnreadable e\<close>: \<open>resp.ok\<close> is false and \<open>await resp.text()\<close> throws \<open>e\<close>;
  \<^item> \<open>BadBody e\<close>: \<open>resp.ok\<close> is true and reading the body (\<open>resp.json()\<close>, the field
    of the result, \<open>resp.arrayBuffer()\<close>) throws \<open>e\<close>;
  \<^item> \<open>Okay v\<close>: \<open>resp.ok\<close> is true and the payload is \<open>v\<close>.
\<close>

datatype 'a response = Rejected exn | NotOk string | NotOkUnreadable exn | BadBody exn | Okay 'a

text \<open>A child process ends with the \<open>error\<close> event or with \<open>close\<close>, an exit code and
  what it wrote to stdout.\<close>

datatype proc = ProcError exn | Closed int "byte list"

record world =
  OPENAI_API_KEY :: "string option"
  ELEVENLABS_API_KEY :: "string option"
  LIBRETRANSLATE_URL :: "string option"
  LIBRETRANSLATE_API_KEY :: "string option"
  tmpPath :: string
  ffmpegPcmToWav :: "nat \<Rightarrow> nat \<Rightarrow> byte list \<Rightarrow> proc"
  readFileSync :: "string \<Rightarrow> exn + byte list"
  whisper :: "byte list \<Rightarrow> string \<Rightarrow> string response"
  libre :: "string \<Rightarrow> (string \<times> string) list \<Rightarrow> string response"
  eleven :: "string \<Rightarrow> string \<Rightarrow> byte list response"
  ffmpegMp3ToPcm :: "byte list \<Rightarrow> nat \<Rightarrow> nat \<Rightarrow> proc"
  unlinkSync :: "string \<Rightarrow> exn option"

text \<open>Template strings print numbers in decimal.\<close>

fun show_nat :: "nat \<Rightarrow> string" where
  "show_nat n = (if n < 10 then [''0123456789'' ! n]
                 else show_nat (n div 10) @ [''0123456789'' ! (n mod 10)])"

declare show_nat.simps [simp del]

definition show_int :: "int \<Rightarrow> string" where
  "show_int k = (if k < 0 then CHR ''-'' # show_nat (nat (- k)) else show_nat (nat k))"

text \<open>JavaScript truthiness of an optional string: \<open>undefined\<close> and \<open>""\<close> are falsy;
  \<open>a || b\<close> is \<open>a\<close> when \<open>a\<close> is truthy, else \<open>b\<close>.\<close>

definition truthy :: "string option \<Rightarrow> bool" where
  "truthy s = (case s of None \<Rightarrow> False | Some v \<Rightarrow> v \<noteq> [])"

definition or_else :: "string option \<Rightarrow> string \<Rightarrow> string" where
  "or_else a b = (case a of None \<Rightarrow> b | Some v \<Rightarrow> if v \<noteq> [] then v else b)"

definition LIBRETRANSLATE_URL_DEFAULT :: "world \<Rightarrow> string" where
  "LIBRETRANSLATE_URL_DEFAULT w = or_else (LIBRETRANSLATE_URL w) ''http://localhost:5000/translate''"

definition LIBRETRANSLATE_API_KEY_ENV :: "world \<Rightarrow> string" where
  "LIBRETRANSLATE_API_KEY_ENV w = or_else (LIBRETRANSLATE_API_KEY w) ''''"

text \<open>\<open>String.prototype.includes\<close>: the pattern occurs as a contiguous substring.\<close>

fun starts_with :: "string \<Rightarrow> string \<Rightarrow> bool" where
  "starts_with s [] = True"
| "starts_with [] (p # ps) = False"
| "starts_with (c # cs) (p # ps) = (c = p \<and> starts_with cs ps)"

fun str_includes :: "string \<Rightarrow> string \<Rightarrow> bool" where
  "str_includes [] p = (p = [])"
| "str_includes (c # cs) p = (starts_with (c # cs) p \<or> str_includes cs p)"

text \<open>\<open>String.prototype.trim\<close> on the ASCII white space (tab, line feed, vertical tab,
  form feed, carriage return, space).\<close>

definition is_space :: "char \<Rightarrow> bool" where
  "is_space c = (c \<in> set [CHR 0x09, CHR 0x0A, CHR 0x0B, CHR 0x0C, CHR 0x0D, CHR '' ''])"

definition trim :: "string \<Rightarrow> string" where
  "trim s = rev (dropWhile is_space (rev (dropWhile is_space s)))"

subsection \<open>Asynchronous calls: a result or an exception, and the events on the way\<close>

type_synonym 'a io = "(exn + 'a) \<times> event list"

text \<open>\<open>const x = await m; f(x)\<close>: an exception of \<open>m\<close> leaves the enclosing function.\<close>

definition bind_io :: "'a io \<Rightarrow> ('a \<Rightarrow> 'b io) \<Rightarrow> 'b io" where
  "bind_io m f =
     (case m of
        (Inl e, ev) \<Rightarrow> (Inl e, ev)
      | (Inr x, ev) \<Rightarrow> (case f x of (r, ev') \<Rightarrow> (r, ev @ ev')))"

section \<open>The three capabilities\<close>

definition openAiStt :: "world \<Rightarrow> string \<Rightarrow> string \<Rightarrow> string io" where
  "openAiStt w wavFile language =
     (if \<not> truthy (OPENAI_API_KEY w) then
        (Inr '''', [ConsoleWarn ''[openAiStt] Missing OPENAI_API_KEY; returning empty.''])
      else
        case readFileSync w wavFile of
          Inl e \<Rightarrow> (Inl e, [])
        | Inr fileBuffer \<Rightarrow>
            (case whisper w fileBuffer language of
               Rejected e \<Rightarrow> (Inl e, [Fetch ''https://api.openai.com/v1/audio/transcriptions''])
             | NotOk errText \<Rightarrow>
                 (Inr '''', [Fetch ''https://api.openai.com/v1/audio/transcriptions'',
                            ConsoleError (''[openAiStt] Error => '' @ errText)])
             | NotOkUnreadable e \<Rightarrow>
                 (Inl e, [Fetch ''https://api.openai.com/v1/audio/transcriptions''])
             | BadBody e \<Rightarrow> (Inl e, [Fetch ''https://api.openai.com/v1/audio/transcriptions''])
             | Okay text \<Rightarrow>
                 (Inr (trim text), [Fetch ''https://api.openai.com/v1/audio/transcriptions''])))"

definition libre_warning :: string where
  "libre_warning = ''[libreTranslate] WARNING: Using a non-localhost endpoint but no API key found.''"

text \<open>The JSON body of the request: the four fixed entries, and \<open>api_key\<close> when a key is
  configured (\<open>translateApiKey || LIBRETRANSLATE_API_KEY_ENV\<close>).\<close>

definition effectiveApiKey :: "world \<Rightarrow> string option \<Rightarrow> string" where
  "effectiveApiKey w translateApiKey = or_else translateApiKey (LIBRETRANSLATE_API_KEY_ENV w)"

definition request_body ::
  "world \<Rightarrow> string \<Rightarrow> string \<Rightarrow> string option \<Rightarrow> (string \<times> string) list" where
  "request_body w text targetLang translateApiKey =
     (let body = [(''q'', text), (''source'', ''auto''), (''target'', targetLang),
                  (''format'', ''text'')]
      in if effectiveApiKey w translateApiKey \<noteq> []
         then body @ [(''api_key'', effectiveApiKey w translateApiKey)] else body)"

definition libreTranslate ::
  "world \<Rightarrow> string \<Rightarrow> string \<Rightarrow> string \<Rightarrow> string option \<Rightarrow> string io" where
  "libreTranslate w text targetLang translateUrl translateApiKey =
     (if text = [] then (Inr '''', [])
      else
        let isLocalhost = str_includes translateUrl ''localhost'';
            warned = (if \<not> isLocalhost \<and> effectiveApiKey w translateApiKey = []
                      then [ConsoleWarn libre_warning] else [])
        in case libre w translateUrl (request_body w text targetLang translateApiKey) of
             Rejected e \<Rightarrow> (Inl e, warned @ [Fetch translateUrl])
           | NotOk errText \<Rightarrow>
               (Inr text, warned @ [Fetch translateUrl,
                                    ConsoleError (''[libreTranslate] Error => '' @ errText)])
           | NotOkUnreadable e \<Rightarrow> (Inl e, warned @ [Fetch translateUrl])
           | BadBody e \<Rightarrow> (Inl e, warned @ [Fetch translateUrl])
           | Okay translatedText \<Rightarrow> (Inr translatedText, warned @ [Fetch translateUrl]))"

text \<open>
  Storing a number into an \<open>Int16Array\<close> truncates it toward zero and keeps the low 16
  bits.
\<close>

definition toInt16 :: "real \<Rightarrow> sample" where
  "toInt16 x = word_of_int (if 0 \<le> x then \<lfloor>x\<rfloor> else \<lceil>x\<rceil>)"

text \<open>
  The fallback tone. The code computes \<open>amplitude * Math.sin(2 * Math.PI * freq * t)\<close>
  in IEEE doubles; the model computes the same expression in exact real arithmetic.
  The two stored values can differ by one where the exact product is an integer and
  the rounded one falls just short of it (the exact value at index 100 is \<open>-4000\<close>).
\<close>

definition syntheticBeepPcm :: pcm where
  "syntheticBeepPcm =
     (let sampleRate = 48000 :: nat;
          durationMs = 500 :: nat;
          totalSamples = (sampleRate * durationMs) div 1000;
          freq = 440 :: nat;
          amplitude = 8000 :: nat
      in map (\<lambda>i. let t = real i / real sampleRate
                  in toInt16 (real amplitude * sin (2 * pi * real freq * t)))
           [0..<totalSamples])"

text \<open>\<open>Buffer.readInt16LE(k)\<close>, and the loop of \<open>convertMp3ToPcm\<close> over
  \<open>new Int16Array(rawData.length / 2)\<close> (a fractional length is truncated).\<close>

definition readInt16LE :: "byte list \<Rightarrow> nat \<Rightarrow> sample" where
  "readInt16LE rawData k = word_cat (rawData ! (k + 1)) (rawData ! k)"

definition convertMp3ToPcm :: "world \<Rightarrow> byte list \<Rightarrow> nat \<Rightarrow> nat \<Rightarrow> pcm io" where
  "convertMp3ToPcm w mp3Buffer outRate outChannels =
     (case ffmpegMp3ToPcm w mp3Buffer outRate outChannels of
        ProcError e \<Rightarrow> (Inl e, [])
      | Closed code rawData \<Rightarrow>
          if code \<noteq> 0 then (Inl (''ffmpeg mp3->pcm returned code='' @ show_int code), [])
          else (Inr (map (\<lambda>i. readInt16LE rawData (i * 2)) [0..<length rawData div 2]), []))"

definition elevenLabsTts :: "world \<Rightarrow> string \<Rightarrow> string \<Rightarrow> pcm io" where
  "elevenLabsTts w text voiceId =
     (if \<not> truthy (ELEVENLABS_API_KEY w) then
        (Inr syntheticBeepPcm,
         [ConsoleWarn ''[elevenLabsTts] Missing ELEVENLABS_API_KEY; returning beep fallback.''])
      else
        let url = ''https://api.elevenlabs.io/v1/text-to-speech/'' @ voiceId;
            started = [ConsoleLog (''[elevenLabsTts] Request => '' @ text), Fetch url]
        in case eleven w voiceId text of
             Rejected e \<Rightarrow> (Inl e, started)
           | NotOk errText \<Rightarrow>
               (Inr syntheticBeepPcm,
                started @ [ConsoleError (''[elevenLabsTts] Error => '' @ errText)])
           | NotOkUnreadable e \<Rightarrow> (Inl e, started)
           | BadBody e \<Rightarrow> (Inl e, started)
           | Okay mp3Buffer \<Rightarrow> bind_io (Inr (), started) (\<lambda>_. convertMp3ToPcm w mp3Buffer 48000 1))"

section \<open>The plugin\<close>

text \<open>
  The fields of the class that the flush, the queue and the pacer read or write.
  \<open>janus\<close> says whether \<open>this.janus\<close> is set. The last two fields belong to the
  JavaScript runtime, not to the class: \<open>dispatching\<close> holds, for every suspended
  \<open>processTtsQueue\<close> loop, the array whose \<open>await this.sendTtsPcmToJanus(nextPcm)\<close> is
  pending, and \<open>trace\<close> the events so far. The arrays in the queue are never written
  to after they are made, so the queue holds their contents.
  Sample rate and channel count are natural numbers (the configuration type allows
  any number).
\<close>

record plugin =
  janus :: bool
  hlsUrl :: string
  sampleRate :: nat
  channels :: nat
  sttLanguage :: string
  targetLanguage :: string
  ttsVoiceId :: string
  translateUrl :: string
  translateApiKey :: "string option"
  isStreaming :: bool
  pcmBuffer :: "byte list"
  ttsQueue :: "pcm list"
  ttsProcessing :: bool
  dispatching :: "pcm list"
  trace :: "event list"

record config =
  cfg_hlsUrl :: string
  cfg_sampleRate :: "nat option"
  cfg_channels :: "nat option"
  cfg_sttLanguage :: "string option"
  cfg_targetLanguage :: "string option"
  cfg_ttsVoiceId :: "string option"
  cfg_translateUrl :: "string option"
  cfg_translateApiKey :: "string option"

text \<open>The constructor: \<open>x ?? d\<close> takes the default only for a missing value,
  \<open>x || d\<close> also for the empty string.\<close>

definition constructor :: "world \<Rightarrow> config \<Rightarrow> plugin" where
  "constructor w c =
     \<lparr> janus = False,
       hlsUrl = cfg_hlsUrl c,
       sampleRate = (case cfg_sampleRate c of None \<Rightarrow> 48000 | Some r \<Rightarrow> r),
       channels = (case cfg_channels c of None \<Rightarrow> 1 | Some n \<Rightarrow> n),
       sttLanguage = (case cfg_sttLanguage c of None \<Rightarrow> ''en'' | Some l \<Rightarrow> l),
       targetLanguage = (case cfg_targetLanguage c of None \<Rightarrow> ''en'' | Some l \<Rightarrow> l),
       ttsVoiceId = (case cfg_ttsVoiceId c of None \<Rightarrow> ''21m00Tcm4TlvDq8ikWAM'' | Some v \<Rightarrow> v),
       translateUrl = or_else (cfg_translateUrl c) (LIBRETRANSLATE_URL_DEFAULT w),
       translateApiKey = cfg_translateApiKey c,
       isStreaming = False,
       pcmBuffer = [],
       ttsQueue = [],
       ttsProcessing = False,
       dispatching = [],
       trace = [] \<rparr>"

definition emit :: "event list \<Rightarrow> plugin \<Rightarrow> plugin" where
  "emit ev st = st\<lparr>trace := trace st @ ev\<rparr>"

text \<open>\<open>startHlsReading\<close> up to the spawning of the decoder, whose \<open>data\<close> events are the
  calls of \<open>stdout_data\<close> below. \<open>onJanusReady\<close> then starts the timer, whose ticks are the
  calls of \<open>flushChunkForTranslation\<close>.\<close>

definition startHlsReading :: "plugin \<Rightarrow> plugin" where
  "startHlsReading st =
     (if isStreaming st then st
      else if \<not> janus st then
        emit [LoggerError ''[HlsTranslationPlugin] No Janus client; cannot start HLS''] st
      else
        emit [LoggerInfo (''[HlsTranslationPlugin] Spawning ffmpeg with HLS='' @ hlsUrl st)]
          (st\<lparr>isStreaming := True\<rparr>))"

definition onJanusReady :: "plugin \<Rightarrow> plugin" where
  "onJanusReady st =
     startHlsReading
       (emit [LoggerInfo ''[HlsTranslationPlugin] onJanusReady => Janus is set'']
          (st\<lparr>janus := True\<rparr>))"

subsection \<open>Accumulation buffer\<close>

text \<open>The handler of the decoder's \<open>data\<close> event:
  \<open>this.pcmBuffer = Buffer.concat([this.pcmBuffer, chunk])\<close>.\<close>

definition stdout_data :: "byte list \<Rightarrow> plugin \<Rightarrow> plugin" where
  "stdout_data chunk st = st\<lparr>pcmBuffer := pcmBuffer st @ chunk\<rparr>"

text \<open>The first segment of \<open>flushChunkForTranslation\<close>, up to the \<open>try\<close>: on an empty
  buffer it logs and returns; otherwise it takes the buffer and installs an empty one.\<close>

definition drain :: "plugin \<Rightarrow> byte list option \<times> plugin" where
  "drain st =
     (if length (pcmBuffer st) = 0 then
        (None, emit [LoggerDebug ''[HlsTranslationPlugin] flush => buffer empty''] st)
      else (Some (pcmBuffer st), st\<lparr>pcmBuffer := []\<rparr>))"

subsection \<open>Playback queue and its consumer\<close>

definition ttsQueue_push :: "pcm \<Rightarrow> plugin \<Rightarrow> plugin" where
  "ttsQueue_push ttsPcm st = st\<lparr>ttsQueue := ttsQueue st @ [ttsPcm]\<rparr>"

text \<open>
  One test of \<open>while (this.ttsQueue.length > 0)\<close> by a loop that is running: either
  the head is shifted off and the loop suspends at
  \<open>await this.sendTtsPcmToJanus(nextPcm)\<close>, or the loop ends and clears the flag.
  (\<open>if (!nextPcm) continue\<close> never fires: an \<open>Int16Array\<close> is truthy.)
\<close>

definition loop_test :: "plugin \<Rightarrow> plugin" where
  "loop_test st =
     (case ttsQueue st of
        [] \<Rightarrow> st\<lparr>ttsProcessing := False\<rparr>
      | nextPcm # rest \<Rightarrow> st\<lparr>ttsQueue := rest, dispatching := dispatching st @ [nextPcm]\<rparr>)"

text \<open>A call of \<open>processTtsQueue\<close>, up to its first \<open>await\<close> or its return.\<close>

definition processTtsQueue :: "plugin \<Rightarrow> plugin" where
  "processTtsQueue st =
     (if ttsProcessing st then st else loop_test (st\<lparr>ttsProcessing := True\<rparr>))"

text \<open>The \<open>k\<close>-th suspended loop is resumed: its \<open>sendTtsPcmToJanus\<close> has returned.\<close>

definition dispatch_done :: "nat \<Rightarrow> plugin \<Rightarrow> plugin" where
  "dispatch_done k st =
     (if k < length (dispatching st) then
        loop_test (st\<lparr>dispatching := take k (dispatching st) @ drop (Suc k) (dispatching st)\<rparr>)
      else st)"

text \<open>\<open>cleanup\<close> also kills the decoder and clears the timer, which are outside this
  record. It does not touch the suspended consumer loops, and neither cancels the
  pipeline runs that are in flight.\<close>

definition cleanup :: "plugin \<Rightarrow> plugin" where
  "cleanup st =
     (emit [LoggerInfo ''[HlsTranslationPlugin] cleanup => stopping ffmpeg/timer''] st)
       \<lparr>isStreaming := False, pcmBuffer := [], ttsQueue := [], ttsProcessing := False\<rparr>"

subsection \<open>The transform pipeline of one chunk\<close>

definition convertPcmToWav :: "world \<Rightarrow> plugin \<Rightarrow> byte list \<Rightarrow> string io" where
  "convertPcmToWav w st chunkBuf =
     (case ffmpegPcmToWav w (sampleRate st) (channels st) chunkBuf of
        ProcError e \<Rightarrow> (Inl e, [])
      | Closed code out \<Rightarrow>
          if code = 0 then (Inr (tmpPath w), [])
          else (Inl (''ffmpeg pcm->wav code='' @ show_int code), []))"

definition fs_unlinkSync :: "world \<Rightarrow> string \<Rightarrow> unit io" where
  "fs_unlinkSync w p = (case unlinkSync w p of Some e \<Rightarrow> (Inl e, []) | None \<Rightarrow> (Inr (), [Unlink p]))"

text \<open>The body of the \<open>try\<close> block up to \<open>fs.unlinkSync(wavPath)\<close>. It reads only
  configuration fields of the plugin.\<close>

definition transform :: "world \<Rightarrow> plugin \<Rightarrow> byte list \<Rightarrow> pcm io" where
  "transform w st chunkBuf =
     bind_io (convertPcmToWav w st chunkBuf) (\<lambda>wavPath.
     bind_io (Inr (), [LoggerInfo (''[HlsTranslationPlugin] flush => created WAV at '' @ wavPath)]) (\<lambda>_.
     bind_io (openAiStt w wavPath (sttLanguage st)) (\<lambda>recognizedText.
     bind_io (libreTranslate w recognizedText (targetLanguage st) (translateUrl st)
                (translateApiKey st)) (\<lambda>translatedText.
     bind_io (elevenLabsTts w translatedText (ttsVoiceId st)) (\<lambda>ttsPcm.
     bind_io (fs_unlinkSync w wavPath) (\<lambda>_. (Inr ttsPcm, [])))))))"

text \<open>The last segment of \<open>flushChunkForTranslation\<close>, run on the state of that later
  moment: the push and the call of \<open>processTtsQueue\<close>, or the \<open>catch\<close> block.\<close>

definition flush_finish :: "pcm io \<Rightarrow> plugin \<Rightarrow> plugin" where
  "flush_finish r st =
     (case r of
        (Inr ttsPcm, ev) \<Rightarrow> processTtsQueue (ttsQueue_push ttsPcm (emit ev st))
      | (Inl err, ev) \<Rightarrow>
          emit (ev @ [LoggerError (''[HlsTranslationPlugin] flushChunkForTranslation => '' @ err)]) st)"

text \<open>A flush with nothing else happening between its segments.\<close>

definition flushChunkForTranslation :: "world \<Rightarrow> plugin \<Rightarrow> plugin" where
  "flushChunkForTranslation w st =
     (case drain st of
        (None, st') \<Rightarrow> st'
      | (Some chunkBuf, st') \<Rightarrow> flush_finish (transform w st' chunkBuf) st')"

subsection \<open>What can happen to the queue, as a transition system\<close>

datatype action = PipelineDone pcm | DispatchDone nat | Cleanup

fun step :: "action \<Rightarrow> plugin \<Rightarrow> plugin" where
  "step (PipelineDone ttsPcm) st = flush_finish (Inr ttsPcm, []) st"
| "step (DispatchDone k) st = dispatch_done k st"
| "step Cleanup st = cleanup st"

definition run :: "action list \<Rightarrow> plugin \<Rightarrow> plugin" where
  "run acts st = fold step acts st"

section \<open>Frame pacer\<close>

text \<open>
  The pacer makes new arrays and hands references to the sink, so it runs on a store
  of \<open>Int16Array\<close> objects: an address is an index into the store. A typed array reads
  as \<open>undefined\<close> out of range (stored as 0) and ignores a write out of range.
\<close>

type_synonym store = "pcm list"

definition newInt16Array :: "nat \<Rightarrow> store \<Rightarrow> addr \<times> store" where
  "newInt16Array n h = (length h, h @ [replicate n 0])"

definition rd :: "store \<Rightarrow> addr \<Rightarrow> nat \<Rightarrow> sample" where
  "rd h a i = (if i < length (h ! a) then h ! a ! i else 0)"

definition wr :: "store \<Rightarrow> addr \<Rightarrow> nat \<Rightarrow> sample \<Rightarrow> store" where
  "wr h a i v = h[a := (h ! a)[i := v]]"

text \<open>\<open>for (let i = 0; i < n; i++) dst[i] = src[offset + i]\<close>\<close>

definition copy_samples :: "addr \<Rightarrow> addr \<Rightarrow> nat \<Rightarrow> nat \<Rightarrow> store \<Rightarrow> store" where
  "copy_samples dst src offset n h = fold (\<lambda>i h'. wr h' dst i (rd h' src (offset + i))) [0..<n] h"

text \<open>\<open>Math.floor(this.sampleRate * 0.01) * this.channels\<close>. For a sample rate that is a
  natural number the rounded product of doubles has the floor \<open>sampleRate div 100\<close>:
  the double nearest to 0.01 exceeds it by less than half a unit in the last place.\<close>

definition frameSizeSamples :: "plugin \<Rightarrow> nat" where
  "frameSizeSamples st = (sampleRate st div 100) * channels st"

definition push_frame :: "plugin \<Rightarrow> store \<Rightarrow> addr \<Rightarrow> event list" where
  "push_frame st h frame =
     [PushLocalAudio frame (h ! frame) (sampleRate st) (channels st), SetTimeout 10]"

text \<open>The loop \<open>while (offset + frameSizeSamples <= rawPcm.length)\<close>. With a frame size
  of 0 it never ends: the value is then \<open>None\<close>.\<close>

partial_function (option) send_full_frames ::
  "plugin \<Rightarrow> addr \<Rightarrow> nat \<Rightarrow> nat \<Rightarrow> store \<Rightarrow> event list \<Rightarrow> (nat \<times> store \<times> event list) option" where
  "send_full_frames st rawPcm F offset h ev =
     (if offset + F \<le> length (h ! rawPcm) then
        (let h1 = snd (newInt16Array F h);
             frame = fst (newInt16Array F h);
             h2 = copy_samples frame rawPcm offset F h1
         in send_full_frames st rawPcm F (offset + F) h2 (ev @ push_frame st h2 frame))
      else Some (offset, h, ev))"

definition sendTtsPcmToJanus :: "plugin \<Rightarrow> addr \<Rightarrow> store \<Rightarrow> (store \<times> event list) option" where
  "sendTtsPcmToJanus st rawPcm h =
     (if \<not> janus st then
        Some (h, [LoggerWarn ''[HlsTranslationPlugin] sendTtsPcmToJanus => no Janus client''])
      else
        case send_full_frames st rawPcm (frameSizeSamples st) 0 h [] of
          None \<Rightarrow> None
        | Some (offset, h1, ev) \<Rightarrow>
            let leftover = length (h1 ! rawPcm) - offset in
            if leftover > 0 \<and> leftover < frameSizeSamples st then
              (let h2 = snd (newInt16Array (frameSizeSamples st) h1);
                   padFrame = fst (newInt16Array (frameSizeSamples st) h1);
                   h3 = copy_samples padFrame rawPcm offset leftover h2
               in Some (h3, ev @ push_frame st h3 padFrame))
            else Some (h1, ev))"

text \<open>What the sink received, in order: the references and the frames.\<close>

fun pushed_addrs :: "event list \<Rightarrow> addr list" where
  "pushed_addrs [] = []"
| "pushed_addrs (PushLocalAudio a f r c # ev) = a # pushed_addrs ev"
| "pushed_addrs (e # ev) = pushed_addrs ev"

fun pushed_frames :: "event list \<Rightarrow> pcm list" where
  "pushed_frames [] = []"
| "pushed_frames (PushLocalAudio a f r c # ev) = f # pushed_frames ev"
| "pushed_frames (e # ev) = pushed_frames ev"

fun timeouts :: "event list \<Rightarrow> nat list" where
  "timeouts [] = []"
| "timeouts (SetTimeout ms # ev) = ms # timeouts ev"
| "timeouts (e # ev) = timeouts ev"

section \<open>Concrete worlds and states, for the examples\<close>

text \<open>
  \<open>w_nokeys\<close>: no credential is configured and every endpoint answers with an error
  status; the audio converter works. The other worlds change it in one place:
  \<open>w_offline\<close> has credentials but the recognition request is rejected,
  \<open>w_translate_down\<close> recognizes \<open>hi\<close> and then the translation request is rejected,
  \<open>w_synthesis_rejected\<close> has a synthesis credential and the synthesis request is
  rejected, \<open>w_wav_fails\<close> has the WAV conversion exit with code 1.
\<close>

definition w_nokeys :: world where
  "w_nokeys =
     \<lparr> OPENAI_API_KEY = None, ELEVENLABS_API_KEY = None,
       LIBRETRANSLATE_URL = None, LIBRETRANSLATE_API_KEY = None,
       tmpPath = ''/tmp/hls_chunk_0.wav'',
       ffmpegPcmToWav = (\<lambda>rate ch chunk. Closed 0 []),
       readFileSync = (\<lambda>p. Inr []),
       whisper = (\<lambda>file lang. NotOk ''401''),
       libre = (\<lambda>url body. NotOk ''403''),
       eleven = (\<lambda>voice text. NotOk ''401''),
       ffmpegMp3ToPcm = (\<lambda>mp3 rate ch. Closed 1 []),
       unlinkSync = (\<lambda>p. None) \<rparr>"

definition w_offline :: world where
  "w_offline = w_nokeys\<lparr> OPENAI_API_KEY := Some ''sk-test'', ELEVENLABS_API_KEY := Some ''el-test'',
       whisper := (\<lambda>file lang. Rejected ''fetch failed'') \<rparr>"

definition w_translate_down :: world where
  "w_translate_down = w_nokeys\<lparr> OPENAI_API_KEY := Some ''sk-test'',
       whisper := (\<lambda>file lang. Okay ''hi''), libre := (\<lambda>url body. Rejected ''fetch failed'') \<rparr>"

definition w_wav_fails :: world where
  "w_wav_fails = w_nokeys\<lparr> ffmpegPcmToWav := (\<lambda>rate ch chunk. Closed 1 []) \<rparr>"

definition w_synthesis_rejected :: world where
  "w_synthesis_rejected = w_nokeys\<lparr> ELEVENLABS_API_KEY := Some ''el-test'',
       eleven := (\<lambda>voice text. Rejected ''fetch failed'') \<rparr>"

definition cfg_default :: config where
  "cfg_default =
     \<lparr> cfg_hlsUrl = ''https://example.org/live.m3u8'', cfg_sampleRate = None, cfg_channels = None, cfg_sttLanguage = None,
       cfg_targetLanguage = None, cfg_ttsVoiceId = None, cfg_translateUrl = None,
       cfg_translateApiKey = None \<rparr>"


text \<open>The plugin as constructed with the default configuration, after \<open>onJanusReady\<close>;
  then with two bytes buffered; then after one and two timer ticks.\<close>

definition st_ready :: plugin where
  "st_ready = onJanusReady (constructor w_nokeys cfg_default)"

definition st_buffered :: plugin where
  "st_buffered = stdout_data [1, 2] st_ready"



text \<open>A plugin with sample rate 300 and one channel (frames of 3 samples), without and
  with a sink.\<close>

definition st_no_sink :: plugin where
  "st_no_sink = constructor w_nokeys (cfg_default\<lparr> cfg_sampleRate := Some 300 \<rparr>)"

definition st_sink :: plugin where
  "st_sink = onJanusReady st_no_sink"

text \<open>A plugin with sample rate 250 and two channels (frames of \<open>2 * 2\<close> samples) and a
  sink.\<close>

definition st_stereo :: plugin where
  "st_stereo = onJanusReady (constructor w_nokeys
     (cfg_default\<lparr> cfg_sampleRate := Some 250, cfg_channels := Some 2 \<rparr>))"

subsection \<open>Vocabulary of the proofs\<close>

text \<open>The \<open>k\<close>-th full frame cut from \<open>src\<close> starting at \<open>offset\<close>, and the events of
  \<open>m\<close> full frames whose arrays are allocated from address \<open>base\<close> on.\<close>

definition full_frame :: "pcm \<Rightarrow> nat \<Rightarrow> nat \<Rightarrow> nat \<Rightarrow> pcm" where
  "full_frame src F offset k = take F (drop (offset + k * F) src)"

definition full_events :: "plugin \<Rightarrow> pcm \<Rightarrow> nat \<Rightarrow> nat \<Rightarrow> nat \<Rightarrow> nat \<Rightarrow> event list" where
  "full_events st src F offset base m =
     concat (map (\<lambda>k. [PushLocalAudio (base + k) (full_frame src F offset k) (sampleRate st) (channels st),
                       SetTimeout 10]) [0..<m])"

text \<open>
  When a stage of the pipeline throws \<open>err\<close>, in terms of what the world answers: an
  awaited request throws when it is rejected or when the body of its response cannot be
  read; a conversion throws on the \<open>error\<close> event and on a non-zero exit code.
\<close>

definition request_throws :: "'a response \<Rightarrow> exn \<Rightarrow> bool" where
  "request_throws r err = (r = Rejected err \<or> r = NotOkUnreadable err \<or> r = BadBody err)"

definition wav_conversion_ok :: "world \<Rightarrow> plugin \<Rightarrow> byte list \<Rightarrow> bool" where
  "wav_conversion_ok w st chunk =
     (case ffmpegPcmToWav w (sampleRate st) (channels st) chunk of
        ProcError e \<Rightarrow> False | Closed code out \<Rightarrow> code = 0)"

definition wav_conversion_throws :: "world \<Rightarrow> plugin \<Rightarrow> byte list \<Rightarrow> exn \<Rightarrow> bool" where
  "wav_conversion_throws w st chunk err =
     (case ffmpegPcmToWav w (sampleRate st) (channels st) chunk of
        ProcError e \<Rightarrow> err = e
      | Closed code out \<Rightarrow> code \<noteq> 0 \<and> err = ''ffmpeg pcm->wav code='' @ show_int code)"

definition recognition_throws :: "world \<Rightarrow> string \<Rightarrow> string \<Rightarrow> exn \<Rightarrow> bool" where
  "recognition_throws w wavFile language err =
     (truthy (OPENAI_API_KEY w) \<and>
      (case readFileSync w wavFile of
         Inl e \<Rightarrow> err = e
       | Inr fileBuffer \<Rightarrow> request_throws (whisper w fileBuffer language) err))"

definition translation_throws ::
  "world \<Rightarrow> string \<Rightarrow> string \<Rightarrow> string \<Rightarrow> string option \<Rightarrow> exn \<Rightarrow> bool" where
  "translation_throws w text targetLang url apiKey err =
     (text \<noteq> [] \<and> request_throws (libre w url (request_body w text targetLang apiKey)) err)"

definition synthesis_throws :: "world \<Rightarrow> string \<Rightarrow> string \<Rightarrow> exn \<Rightarrow> bool" where
  "synthesis_throws w text voiceId err =
     (truthy (ELEVENLABS_API_KEY w) \<and>
      (case eleven w voiceId text of
         Okay mp3Buffer \<Rightarrow>
           (case ffmpegMp3ToPcm w mp3Buffer 48000 1 of
              ProcError e \<Rightarrow> err = e
            | Closed code rawData \<Rightarrow>
                code \<noteq> 0 \<and> err = ''ffmpeg mp3->pcm returned code='' @ show_int code)
       | r \<Rightarrow> request_throws r err))"

text \<open>At most one consumer loop is suspended in a dispatch, and the flag is set exactly
  when one is.\<close>

definition single_consumer :: "plugin \<Rightarrow> bool" where
  "single_consumer st = (length (dispatching st) \<le> 1 \<and> (ttsProcessing st \<longleftrightarrow> dispatching st \<noteq> []))"

section \<open>Basic facts\<close>

lemmas world_defs = w_nokeys_def w_offline_def w_translate_down_def w_wav_fails_def
  w_synthesis_rejected_def truthy_def or_else_def LIBRETRANSLATE_URL_DEFAULT_def
  LIBRETRANSLATE_API_KEY_ENV_def effectiveApiKey_def

lemmas plugin_defs = st_ready_def onJanusReady_def startHlsReading_def constructor_def
  cfg_default_def emit_def stdout_data_def drain_def

lemmas flush_defs = flushChunkForTranslation_def flush_finish_def transform_def
  convertPcmToWav_def openAiStt_def libreTranslate_def elevenLabsTts_def fs_unlinkSync_def
  processTtsQueue_def ttsQueue_push_def loop_test_def request_body_def

lemma bind_io_Inl [simp]: "bind_io (Inl e, ev) f = (Inl e, ev)"
  by (simp add: bind_io_def)

lemma bind_io_Inr [simp]: "bind_io (Inr x, ev) f = (fst (f x), ev @ snd (f x))"
  by (simp add: bind_io_def split: prod.splits)

lemma fst_bind_io_throws: "fst m = Inl e \<Longrightarrow> fst (bind_io m f) = Inl e"
  by (cases m) (simp add: bind_io_def)

lemma io_split: "fst m = Inr x \<Longrightarrow> m = (Inr x, snd m)"
  by (cases m) simp

lemma io_split_throw: "fst m = Inl e \<Longrightarrow> m = (Inl e, snd m)"
  by (cases m) simp

lemma fst_bind_io_returns: "fst m = Inr x \<Longrightarrow> fst (bind_io m f) = fst (f x)"
  by (cases m) (simp add: bind_io_def split: prod.splits)

lemma or_else_empty: "or_else a b = [] \<longleftrightarrow> \<not> truthy a \<and> b = []"
  by (auto simp: or_else_def truthy_def split: option.splits)

section \<open>Accumulation buffer\<close>

lemma pcmBuffer_fold_stdout_data:
  "pcmBuffer (fold stdout_data chunks st) = pcmBuffer st @ concat chunks"
  by (induction chunks arbitrary: st) (simp_all add: stdout_data_def)

lemma flush_nonempty:
  assumes "pcmBuffer st \<noteq> []"
  shows "flushChunkForTranslation w st =
         flush_finish (transform w (st\<lparr>pcmBuffer := []\<rparr>) (pcmBuffer st)) (st\<lparr>pcmBuffer := []\<rparr>)"
  using assms by (simp add: flushChunkForTranslation_def drain_def)

text \<open>
  C4. Starting from an empty buffer, after any sequence of appends the drain hands out
  the concatenation of the appended chunks in call order (nothing at all when that is
  empty) and leaves the buffer empty; a second drain with no append in between finds
  nothing and is no error; and a flush on an empty buffer only writes a debug line:
  no pipeline run, no change to the queue.
\<close>

theorem drain_returns_appended_bytes:
  assumes "pcmBuffer st = []"
  shows "fst (drain (fold stdout_data chunks st)) =
           (if concat chunks = [] then None else Some (concat chunks)) \<and>
         pcmBuffer (snd (drain (fold stdout_data chunks st))) = [] \<and>
         fst (drain (snd (drain (fold stdout_data chunks st)))) = None \<and>
         flushChunkForTranslation w st =
           emit [LoggerDebug ''[HlsTranslationPlugin] flush => buffer empty''] st"
  using assms
  by (simp add: drain_def pcmBuffer_fold_stdout_data flushChunkForTranslation_def emit_def)

text \<open>The hypothesis and the conclusion of C4 at three appends, one of them empty.\<close>

theorem drain_returns_appended_bytes_witness:
  "pcmBuffer st_ready = [] \<and>
   fst (drain (fold stdout_data [[1, 2], [], [3]] st_ready)) = Some [1, 2, 3] \<and>
   pcmBuffer (snd (drain (fold stdout_data [[1, 2], [], [3]] st_ready))) = [] \<and>
   fst (drain (snd (drain (fold stdout_data [[1, 2], [], [3]] st_ready)))) = None \<and>
   flushChunkForTranslation w_nokeys st_ready =
     emit [LoggerDebug ''[HlsTranslationPlugin] flush => buffer empty''] st_ready"
proof -
  have h: "pcmBuffer st_ready = []" by (simp add: plugin_defs)
  show ?thesis
    using drain_returns_appended_bytes [OF h, of "[[1, 2], [], [3]]" w_nokeys] h by simp
qed

section \<open>Translate\<close>

lemma libreTranslate_empty: "libreTranslate w [] targetLang url apiKey = (Inr [], [])"
  by (simp add: libreTranslate_def)

text \<open>
  C7, as stated, fails: with the text \<open>hi\<close> and a translation request that is
  rejected, \<open>libreTranslate\<close> throws instead of returning \<open>hi\<close>, the pipeline run
  throws, and the chunk is dropped (nothing reaches the queue).
\<close>

theorem rejected_translation_drops_chunk_counterexample:
  "fst (libreTranslate w_translate_down ''hi'' ''fr'' ''http://localhost:5000/translate'' None) =
     Inl ''fetch failed'' \<and>
   fst (transform w_translate_down (st_buffered\<lparr>pcmBuffer := []\<rparr>) (pcmBuffer st_buffered)) =
     Inl ''fetch failed'' \<and>
   ttsQueue (flushChunkForTranslation w_translate_down st_buffered) = [] \<and>
   dispatching (flushChunkForTranslation w_translate_down st_buffered) = []"
  by (simp add: st_buffered_def plugin_defs world_defs flush_defs bind_io_def trim_def is_space_def)

text \<open>
  C7 (amended). For every input text: Translate on empty input returns empty output
  without a network call (its event list is empty); when the endpoint answers with a
  non-OK status whose error text can be read, Translate returns the original text
  unchanged; and when the request is rejected or the response cannot be read, Translate
  throws and returns no text.
\<close>

theorem translate_empty_or_not_ok_passes_through:
  "libreTranslate w [] targetLang url apiKey = (Inr [], []) \<and>
   (libre w url (request_body w text targetLang apiKey) = NotOk errText \<longrightarrow>
      fst (libreTranslate w text targetLang url apiKey) = Inr text) \<and>
   (text \<noteq> [] \<and>
    libre w url (request_body w text targetLang apiKey) \<in>
      {Rejected err, NotOkUnreadable err, BadBody err} \<longrightarrow>
      fst (libreTranslate w text targetLang url apiKey) = Inl err)"
  by (auto simp: libreTranslate_def Let_def)

text \<open>C7 (amended) where the translation endpoint answers 403, and where the request is
  rejected.\<close>

theorem translate_empty_or_not_ok_passes_through_witness:
  "libre w_nokeys ''http://localhost:5000/translate'' (request_body w_nokeys ''hi'' ''fr'' None) =
     NotOk ''403'' \<and>
   libreTranslate w_nokeys [] ''fr'' ''http://localhost:5000/translate'' None = (Inr [], []) \<and>
   fst (libreTranslate w_nokeys ''hi'' ''fr'' ''http://localhost:5000/translate'' None) = Inr ''hi'' \<and>
   libre w_translate_down ''http://localhost:5000/translate''
     (request_body w_translate_down ''hi'' ''fr'' None) = Rejected ''fetch failed'' \<and>
   fst (libreTranslate w_translate_down ''hi'' ''fr'' ''http://localhost:5000/translate'' None) =
     Inl ''fetch failed''"
proof -
  have h1: "libre w_nokeys ''http://localhost:5000/translate''
              (request_body w_nokeys ''hi'' ''fr'' None) = NotOk ''403''"
    by (simp add: world_defs)
  have h2: "libre w_translate_down ''http://localhost:5000/translate''
              (request_body w_translate_down ''hi'' ''fr'' None) = Rejected ''fetch failed''"
    by (simp add: world_defs)
  have a: "libreTranslate w_nokeys [] ''fr'' ''http://localhost:5000/translate'' None = (Inr [], []) \<and>
           fst (libreTranslate w_nokeys ''hi'' ''fr'' ''http://localhost:5000/translate'' None) = Inr ''hi''"
    using translate_empty_or_not_ok_passes_through
      [of w_nokeys "''fr''" "''http://localhost:5000/translate''" None "''hi''" "''403''"] h1
    by blast
  have b: "fst (libreTranslate w_translate_down ''hi'' ''fr'' ''http://localhost:5000/translate'' None) =
           Inl ''fetch failed''"
    using translate_empty_or_not_ok_passes_through
      [of w_translate_down "''fr''" "''http://localhost:5000/translate''" None "''hi''" _
          "''fetch failed''"] h2
    by simp
  show ?thesis using h1 h2 a b by blast
qed

text \<open>
  C9, as stated, fails: a call with empty text returns before the check, so a remote
  endpoint without any key produces no warning.
\<close>

theorem empty_text_never_warns_counterexample:
  "\<not> str_includes ''https://libretranslate.com/translate'' ''localhost'' \<and>
   \<not> truthy None \<and> \<not> truthy (LIBRETRANSLATE_API_KEY w_nokeys) \<and>
   ConsoleWarn libre_warning \<notin>
     set (snd (libreTranslate w_nokeys [] ''fr'' ''https://libretranslate.com/translate'' None))"
  by (simp add: world_defs libreTranslate_def)

text \<open>
  C9 (amended). For every translation call with non-empty text, the warning is emitted
  exactly when the URL does not contain \<open>localhost\<close> and no key is configured, neither
  in the plugin configuration nor in the environment; and the network call is made in
  every case.
\<close>

theorem translate_warns_iff_remote_without_key:
  assumes "text \<noteq> []"
  shows "(ConsoleWarn libre_warning \<in> set (snd (libreTranslate w text targetLang url apiKey))
            \<longleftrightarrow> \<not> str_includes url ''localhost'' \<and>
                \<not> truthy apiKey \<and> \<not> truthy (LIBRETRANSLATE_API_KEY w)) \<and>
         Fetch url \<in> set (snd (libreTranslate w text targetLang url apiKey))"
  using assms
  by (cases "libre w url (request_body w text targetLang apiKey)")
     (auto simp: libreTranslate_def Let_def effectiveApiKey_def LIBRETRANSLATE_API_KEY_ENV_def
        or_else_empty)

text \<open>C9 (amended) at a remote endpoint without key: the warning, then the request.\<close>

theorem translate_warns_iff_remote_without_key_witness:
  "''hi'' \<noteq> [] \<and>
   ConsoleWarn libre_warning \<in>
     set (snd (libreTranslate w_nokeys ''hi'' ''fr'' ''https://libretranslate.com/translate'' None)) \<and>
   Fetch ''https://libretranslate.com/translate'' \<in>
     set (snd (libreTranslate w_nokeys ''hi'' ''fr'' ''https://libretranslate.com/translate'' None))"
proof -
  have h: "''hi'' \<noteq> []" by simp
  have c: "\<not> str_includes ''https://libretranslate.com/translate'' ''localhost'' \<and>
           \<not> truthy None \<and> \<not> truthy (LIBRETRANSLATE_API_KEY w_nokeys)"
    by (simp add: world_defs)
  from translate_warns_iff_remote_without_key
         [OF h, of w_nokeys "''fr''" "''https://libretranslate.com/translate''" None] c
  show ?thesis by simp
qed

section \<open>Synthesize\<close>

lemma elevenLabsTts_soft:
  assumes "\<not> truthy (ELEVENLABS_API_KEY w) \<or> (\<exists>e. eleven w voiceId text = NotOk e)"
  shows "fst (elevenLabsTts w text voiceId) = Inr syntheticBeepPcm"
  using assms by (auto simp: elevenLabsTts_def Let_def)

lemma syntheticBeepPcm_samples:
  "syntheticBeepPcm = map (\<lambda>i. toInt16 (8000 * sin (2 * pi * 440 * (real i / 48000)))) [0..<24000]"
  by (simp add: syntheticBeepPcm_def Let_def)



text \<open>Bounds on \<open>sin\<close> and \<open>pi\<close>, to evaluate a sample of the tone.\<close>

lemma sin_poly7:
  fixes x :: real
  shows "\<bar>sin x - (x - x ^ 3 / 6 + x ^ 5 / 120)\<bar> \<le> \<bar>x\<bar> ^ 7 / 5040"
proof -
  have s: "(\<Sum>m<7. sin_coeff m * x ^ m) = x - x ^ 3 / 6 + x ^ 5 / 120"
    by (simp add: numeral_eq_Suc sin_coeff_Suc cos_coeff_Suc)
  have f7: "fact 7 = (5040::real)" by (simp add: fact_numeral)
  have f: "inverse (fact 7) * \<bar>x\<bar> ^ 7 = \<bar>x\<bar> ^ 7 / 5040"
    unfolding f7 by (simp only: divide_inverse mult.commute)
  show ?thesis
    using Maclaurin_sin_bound [of x 7] unfolding s f .
qed

lemma pi_gt_314: "3.14 < pi"
proof -
  define a :: real where "a = 157 / 300"
  have "sin a \<le> (a - a ^ 3 / 6 + a ^ 5 / 120) + \<bar>a\<bar> ^ 7 / 5040"
    using sin_poly7 [of a] by linarith
  also have "\<dots> < 1 / 2" by (simp add: a_def power_divide)
  finally have "sin a < sin (pi / 6)" by (simp add: sin_30)
  moreover have "- (pi / 2) \<le> a" "a \<le> pi / 2"
    using pi_ge_two by (simp_all add: a_def)
  moreover have "- (pi / 2) \<le> pi / 6" "pi / 6 \<le> pi / 2" by simp_all
  ultimately have "a < pi / 6" by (simp add: sin_mono_less_eq)
  then show ?thesis by (simp add: a_def)
qed

lemma pi_lt_3143: "pi < 3.143"
proof -
  define b :: real where "b = 3143 / 6000"
  have "(b - b ^ 3 / 6 + b ^ 5 / 120) - \<bar>b\<bar> ^ 7 / 5040 \<le> sin b"
    using sin_poly7 [of b] by linarith
  moreover have "1 / 2 < (b - b ^ 3 / 6 + b ^ 5 / 120) - \<bar>b\<bar> ^ 7 / 5040"
    by (simp add: b_def power_divide)
  ultimately have "sin (pi / 6) < sin b" by (simp add: sin_30)
  moreover have "- (pi / 2) \<le> b" "b \<le> pi / 2"
    using pi_ge_two by (simp_all add: b_def)
  moreover have "- (pi / 2) \<le> pi / 6" "pi / 6 \<le> pi / 2" by simp_all
  ultimately have "pi / 6 < b" by (simp add: sin_mono_less_eq)
  then show ?thesis by (simp add: b_def)
qed

lemma tone_sample_1: "\<lfloor>8000 * sin (2 * pi * 440 * (1 / 48000))\<rfloor> = 460"
proof -
  define x :: real where "x = 2 * pi * 440 * (1 / 48000)"
  have x: "x = 11 * pi / 600" by (simp add: x_def)
  have lo: "1727 / 30000 < x" using pi_gt_314 by (simp add: x)
  have hi: "x < 34573 / 600000" using pi_lt_3143 by (simp add: x)
  have x0: "0 \<le> x" using lo by simp
  have up: "sin x \<le> x" using x0 by (rule sin_x_le_x)
  have "x - x ^ 3 / 6 + x ^ 5 / 120 - \<bar>x\<bar> ^ 7 / 5040 \<le> sin x"
    using sin_poly7 [of x] by linarith
  moreover have "x ^ 3 \<le> (34573 / 600000) ^ 3" using hi x0 by (intro power_mono) simp_all
  moreover have "\<bar>x\<bar> ^ 7 \<le> (34573 / 600000) ^ 7" using hi x0 by (intro power_mono) simp_all
  moreover have "0 \<le> x ^ 5" using x0 by simp
  ultimately have "1727 / 30000 - (34573 / 600000) ^ 3 / 6 - (34573 / 600000) ^ 7 / 5040 \<le> sin x"
    using lo by linarith
  moreover have "(460::real) / 8000 \<le> 1727 / 30000 - (34573 / 600000) ^ 3 / 6 - (34573 / 600000) ^ 7 / 5040"
    by (simp add: power_divide)
  ultimately have a: "460 \<le> 8000 * sin x" by linarith
  have "sin x < 461 / 8000" using up hi by simp
  then have b: "8000 * sin x < 461" by simp
  show ?thesis unfolding x_def [symmetric] using a b by (simp add: floor_eq_iff)
qed

text \<open>The first two samples of the tone.\<close>

lemma tone_first_samples: "syntheticBeepPcm ! 0 = 0 \<and> syntheticBeepPcm ! 1 = 460"
proof -
  have a: "syntheticBeepPcm ! 0 = toInt16 (8000 * sin (2 * pi * 440 * (real 0 / 48000)))"
    unfolding syntheticBeepPcm_samples by (subst nth_map) simp_all
  have b: "syntheticBeepPcm ! 1 = toInt16 (8000 * sin (2 * pi * 440 * (real 1 / 48000)))"
    unfolding syntheticBeepPcm_samples by (subst nth_map) simp_all
  have f: "\<lfloor>8000 * sin (2 * pi * 440 * (1 / 48000))\<rfloor> = 460" by (rule tone_sample_1)
  then have "0 \<le> 8000 * sin (2 * pi * 440 * (1 / 48000))" by linarith
  then have "toInt16 (8000 * sin (2 * pi * 440 * (1 / 48000))) = 460"
    using f by (simp add: toInt16_def)
  then show ?thesis using a b by (simp add: toInt16_def)
qed




section \<open>The pipeline of one chunk\<close>

lemma openAiStt_soft:
  assumes "\<not> truthy (OPENAI_API_KEY w) \<or>
           (\<exists>file e. readFileSync w p = Inr file \<and> whisper w file lang = NotOk e)"
  shows "fst (openAiStt w p lang) = Inr ''''"
  using assms by (auto simp: openAiStt_def)

text \<open>Each stage throws when the world makes it throw.\<close>

lemma convertPcmToWav_throws:
  "wav_conversion_throws w st chunk err \<Longrightarrow> fst (convertPcmToWav w st chunk) = Inl err"
  by (auto simp: wav_conversion_throws_def convertPcmToWav_def split: proc.splits)

lemma convertPcmToWav_ok:
  "wav_conversion_ok w st chunk \<Longrightarrow> convertPcmToWav w st chunk = (Inr (tmpPath w), [])"
  by (auto simp: wav_conversion_ok_def convertPcmToWav_def split: proc.splits)

lemma openAiStt_throws:
  "recognition_throws w p lang err \<Longrightarrow> fst (openAiStt w p lang) = Inl err"
  by (auto simp: recognition_throws_def request_throws_def openAiStt_def split: sum.splits)

lemma libreTranslate_throws:
  "translation_throws w text targetLang url apiKey err \<Longrightarrow>
     fst (libreTranslate w text targetLang url apiKey) = Inl err"
  by (auto simp: translation_throws_def request_throws_def libreTranslate_def Let_def)

lemma elevenLabsTts_throws:
  "synthesis_throws w text voiceId err \<Longrightarrow> fst (elevenLabsTts w text voiceId) = Inl err"
  by (auto simp: synthesis_throws_def request_throws_def elevenLabsTts_def convertMp3ToPcm_def
        Let_def split: response.splits proc.splits)

lemma fs_unlinkSync_throws:
  "unlinkSync w p = Some err \<Longrightarrow> fst (fs_unlinkSync w p) = Inl err"
  by (simp add: fs_unlinkSync_def)

lemma transform_stage_throws:
  assumes "wav_conversion_throws w st chunk err \<or>
     wav_conversion_ok w st chunk \<and>
     (recognition_throws w (tmpPath w) (sttLanguage st) err \<or>
      fst (openAiStt w (tmpPath w) (sttLanguage st)) = Inr recognized \<and>
      (translation_throws w recognized (targetLanguage st) (translateUrl st) (translateApiKey st) err \<or>
       fst (libreTranslate w recognized (targetLanguage st) (translateUrl st) (translateApiKey st)) =
         Inr translated \<and>
       (synthesis_throws w translated (ttsVoiceId st) err \<or>
        fst (elevenLabsTts w translated (ttsVoiceId st)) = Inr ttsPcm \<and>
        unlinkSync w (tmpPath w) = Some err)))"
  shows "fst (transform w st chunk) = Inl err"
proof -
  consider (wav) "wav_conversion_throws w st chunk err"
    | (stt) "wav_conversion_ok w st chunk"
        "recognition_throws w (tmpPath w) (sttLanguage st) err"
    | (tr) "wav_conversion_ok w st chunk"
        "fst (openAiStt w (tmpPath w) (sttLanguage st)) = Inr recognized"
        "translation_throws w recognized (targetLanguage st) (translateUrl st) (translateApiKey st) err"
    | (tts) "wav_conversion_ok w st chunk"
        "fst (openAiStt w (tmpPath w) (sttLanguage st)) = Inr recognized"
        "fst (libreTranslate w recognized (targetLanguage st) (translateUrl st) (translateApiKey st)) =
           Inr translated"
        "synthesis_throws w translated (ttsVoiceId st) err"
    | (unl) "wav_conversion_ok w st chunk"
        "fst (openAiStt w (tmpPath w) (sttLanguage st)) = Inr recognized"
        "fst (libreTranslate w recognized (targetLanguage st) (translateUrl st) (translateApiKey st)) =
           Inr translated"
        "fst (elevenLabsTts w translated (ttsVoiceId st)) = Inr ttsPcm"
        "unlinkSync w (tmpPath w) = Some err"
    using assms by blast
  then show ?thesis
  proof cases
    case wav
    then show ?thesis
      unfolding transform_def by (intro fst_bind_io_throws convertPcmToWav_throws)
  next
    case stt
    show ?thesis
      unfolding transform_def convertPcmToWav_ok [OF stt(1)]
      by (simp add: fst_bind_io_throws openAiStt_throws [OF stt(2)])
  next
    case tr
    show ?thesis
      unfolding transform_def convertPcmToWav_ok [OF tr(1)]
      by (simp add: fst_bind_io_returns [OF tr(2)] fst_bind_io_throws
            libreTranslate_throws [OF tr(3)])
  next
    case tts
    show ?thesis
      unfolding transform_def convertPcmToWav_ok [OF tts(1)]
      by (simp add: fst_bind_io_returns [OF tts(2)] fst_bind_io_returns [OF tts(3)]
            fst_bind_io_throws elevenLabsTts_throws [OF tts(4)])
  next
    case unl
    show ?thesis
      unfolding transform_def convertPcmToWav_ok [OF unl(1)]
      by (simp add: fst_bind_io_returns [OF unl(2)] fst_bind_io_returns [OF unl(3)]
            fst_bind_io_returns [OF unl(4)]
            fst_bind_io_throws [OF fs_unlinkSync_throws [OF unl(5)]])
  qed
qed

lemma transform_all_fail:
  assumes wav: "ffmpegPcmToWav w (sampleRate st) (channels st) chunk = Closed 0 out"
    and stt: "\<not> truthy (OPENAI_API_KEY w) \<or>
       (\<exists>file e. readFileSync w (tmpPath w) = Inr file \<and> whisper w file (sttLanguage st) = NotOk e)"
    and tts: "\<not> truthy (ELEVENLABS_API_KEY w) \<or> (\<exists>e. eleven w (ttsVoiceId st) [] = NotOk e)"
    and unl: "unlinkSync w (tmpPath w) = None"
  shows "fst (transform w st chunk) = Inr syntheticBeepPcm"
proof -
  have a: "convertPcmToWav w st chunk = (Inr (tmpPath w), [])"
    using wav by (simp add: convertPcmToWav_def)
  have b: "fst (openAiStt w (tmpPath w) (sttLanguage st)) = Inr []"
    using openAiStt_soft [OF stt] .
  have c: "fst (elevenLabsTts w [] (ttsVoiceId st)) = Inr syntheticBeepPcm"
    using elevenLabsTts_soft [OF tts] .
  have d: "fs_unlinkSync w (tmpPath w) = (Inr (), [Unlink (tmpPath w)])"
    using unl by (simp add: fs_unlinkSync_def)
  show ?thesis
    unfolding transform_def a
    by (simp add: fst_bind_io_returns [OF b] libreTranslate_empty fst_bind_io_returns [OF c] d)
qed

lemma enqueued_is_held:
  "ttsPcm \<in> set (ttsQueue (processTtsQueue (ttsQueue_push ttsPcm st)) @
                  dispatching (processTtsQueue (ttsQueue_push ttsPcm st)))"
proof (cases "ttsProcessing st")
  case True
  then show ?thesis by (simp add: processTtsQueue_def ttsQueue_push_def)
next
  case False
  then show ?thesis
    by (cases "ttsQueue st") (simp_all add: processTtsQueue_def ttsQueue_push_def loop_test_def)
qed

text \<open>
  C1, as stated, fails: when the recognition request is rejected (a network error),
  \<open>openAiStt\<close> throws, the flush logs the error, and no audio is queued or dispatched
  for the drained chunk.
\<close>

theorem network_failure_aborts_chunk_counterexample:
  "pcmBuffer st_buffered \<noteq> [] \<and>
   fst (openAiStt w_offline (tmpPath w_offline) (sttLanguage st_buffered)) = Inl ''fetch failed'' \<and>
   ttsQueue (flushChunkForTranslation w_offline st_buffered) = [] \<and>
   dispatching (flushChunkForTranslation w_offline st_buffered) = []"
  by (simp add: st_buffered_def plugin_defs world_defs flush_defs bind_io_def)

text \<open>
  C1 (amended). For every drained chunk whose WAV conversion succeeds and whose
  temporary WAV file is removed without error: when Recognize fails by a missing
  credential or by a non-OK response whose error text can be read, and Synthesize fails
  in one of the same two ways, then Recognize returns empty text, Translate on it
  returns empty text without any event, the pipeline run returns the fallback tone, and
  the last segment of the flush, on whatever state the plugin is in by then, pushes the
  tone onto the playback queue and calls the consumer: afterwards the tone is in the
  queue or being dispatched.
\<close>

theorem soft_failures_enqueue_fallback_tone:
  assumes buf: "pcmBuffer st \<noteq> []"
    and wav: "ffmpegPcmToWav w (sampleRate st) (channels st) (pcmBuffer st) = Closed 0 out"
    and stt: "\<not> truthy (OPENAI_API_KEY w) \<or>
       (\<exists>file e. readFileSync w (tmpPath w) = Inr file \<and> whisper w file (sttLanguage st) = NotOk e)"
    and tts: "\<not> truthy (ELEVENLABS_API_KEY w) \<or> (\<exists>e. eleven w (ttsVoiceId st) [] = NotOk e)"
    and unl: "unlinkSync w (tmpPath w) = None"
  shows "fst (openAiStt w (tmpPath w) (sttLanguage st)) = Inr [] \<and>
         libreTranslate w [] (targetLanguage st) (translateUrl st) (translateApiKey st) = (Inr [], []) \<and>
         fst (transform w (st\<lparr>pcmBuffer := []\<rparr>) (pcmBuffer st)) = Inr syntheticBeepPcm \<and>
         (\<forall>later.
            flush_finish (transform w (st\<lparr>pcmBuffer := []\<rparr>) (pcmBuffer st)) later =
              processTtsQueue (ttsQueue_push syntheticBeepPcm
                (emit (snd (transform w (st\<lparr>pcmBuffer := []\<rparr>) (pcmBuffer st))) later)) \<and>
            syntheticBeepPcm \<in>
              set (ttsQueue (flush_finish (transform w (st\<lparr>pcmBuffer := []\<rparr>) (pcmBuffer st)) later) @
                   dispatching (flush_finish (transform w (st\<lparr>pcmBuffer := []\<rparr>) (pcmBuffer st)) later))) \<and>
         syntheticBeepPcm \<in> set (ttsQueue (flushChunkForTranslation w st) @
                                  dispatching (flushChunkForTranslation w st))"
proof -
  let ?st = "st\<lparr>pcmBuffer := []\<rparr>"
  let ?r = "transform w ?st (pcmBuffer st)"
  have r: "fst ?r = Inr syntheticBeepPcm"
    using wav stt tts unl by (intro transform_all_fail) simp_all
  have t: "?r = (Inr syntheticBeepPcm, snd ?r)"
    using r by (rule io_split)
  have fin: "flush_finish ?r later =
      processTtsQueue (ttsQueue_push syntheticBeepPcm (emit (snd ?r) later))" for later
    by (subst t) (simp add: flush_finish_def)
  have held: "syntheticBeepPcm \<in> set (ttsQueue (flush_finish ?r later) @
                                       dispatching (flush_finish ?r later))" for later
    unfolding fin by (rule enqueued_is_held)
  have whole: "syntheticBeepPcm \<in> set (ttsQueue (flushChunkForTranslation w st) @
                                         dispatching (flushChunkForTranslation w st))"
    unfolding flush_nonempty [OF buf] by (rule held)
  show ?thesis
    using openAiStt_soft [OF stt] libreTranslate_empty r fin held whole by blast
qed

text \<open>C1 (amended) in the world without keys, with two bytes buffered.\<close>

theorem soft_failures_enqueue_fallback_tone_witness:
  "pcmBuffer st_buffered \<noteq> [] \<and>
   ffmpegPcmToWav w_nokeys (sampleRate st_buffered) (channels st_buffered) (pcmBuffer st_buffered) = Closed 0 [] \<and>
   \<not> truthy (OPENAI_API_KEY w_nokeys) \<and> \<not> truthy (ELEVENLABS_API_KEY w_nokeys) \<and>
   unlinkSync w_nokeys (tmpPath w_nokeys) = None \<and>
   fst (transform w_nokeys (st_buffered\<lparr>pcmBuffer := []\<rparr>) (pcmBuffer st_buffered)) =
     Inr syntheticBeepPcm \<and>
   syntheticBeepPcm \<in> set (ttsQueue (flushChunkForTranslation w_nokeys st_buffered) @
                            dispatching (flushChunkForTranslation w_nokeys st_buffered))"
proof -
  have h1: "pcmBuffer st_buffered \<noteq> []" by (simp add: st_buffered_def plugin_defs)
  have h2: "ffmpegPcmToWav w_nokeys (sampleRate st_buffered) (channels st_buffered)
              (pcmBuffer st_buffered) = Closed 0 []" by (simp add: world_defs)
  have h3: "\<not> truthy (OPENAI_API_KEY w_nokeys)" by (simp add: world_defs)
  have h4: "\<not> truthy (ELEVENLABS_API_KEY w_nokeys)" by (simp add: world_defs)
  have h5: "unlinkSync w_nokeys (tmpPath w_nokeys) = None" by (simp add: world_defs)
  show ?thesis
    using soft_failures_enqueue_fallback_tone [of st_buffered w_nokeys "[]", OF h1 h2 _ _ h5]
      h1 h2 h3 h4 h5 by blast
qed

text \<open>
  C10. If a stage of the pipeline run of a drained chunk throws (the WAV conversion,
  the recognition request, the translation request, the synthesis request or its MP3
  conversion, or the removal of the WAV file, the stages before it having returned),
  then the flush writes the error to the log, as the last line after the events of the
  run; no audio is queued or dispatched for the chunk; the drained bytes are not put
  back (the buffer is empty after the flush) and what the decoder sends next is
  buffered as usual. The same holds when the \<open>catch\<close> block runs on any later state:
  it changes the log only.
\<close>

theorem thrown_stage_discards_chunk:
  assumes buf: "pcmBuffer st \<noteq> []"
    and stage: "wav_conversion_throws w st (pcmBuffer st) err \<or>
     wav_conversion_ok w st (pcmBuffer st) \<and>
     (recognition_throws w (tmpPath w) (sttLanguage st) err \<or>
      fst (openAiStt w (tmpPath w) (sttLanguage st)) = Inr recognized \<and>
      (translation_throws w recognized (targetLanguage st) (translateUrl st) (translateApiKey st) err \<or>
       fst (libreTranslate w recognized (targetLanguage st) (translateUrl st) (translateApiKey st)) =
         Inr translated \<and>
       (synthesis_throws w translated (ttsVoiceId st) err \<or>
        fst (elevenLabsTts w translated (ttsVoiceId st)) = Inr ttsPcm \<and>
        unlinkSync w (tmpPath w) = Some err)))"
  shows "trace (flushChunkForTranslation w st) =
           trace st @ snd (transform w (st\<lparr>pcmBuffer := []\<rparr>) (pcmBuffer st)) @
           [LoggerError (''[HlsTranslationPlugin] flushChunkForTranslation => '' @ err)] \<and>
         ttsQueue (flushChunkForTranslation w st) = ttsQueue st \<and>
         dispatching (flushChunkForTranslation w st) = dispatching st \<and>
         ttsProcessing (flushChunkForTranslation w st) = ttsProcessing st \<and>
         pcmBuffer (flushChunkForTranslation w st) = [] \<and>
         pcmBuffer (stdout_data chunk (flushChunkForTranslation w st)) = chunk \<and>
         (\<forall>later.
            flush_finish (transform w (st\<lparr>pcmBuffer := []\<rparr>) (pcmBuffer st)) later =
              later\<lparr>trace := trace later @
                snd (transform w (st\<lparr>pcmBuffer := []\<rparr>) (pcmBuffer st)) @
                [LoggerError (''[HlsTranslationPlugin] flushChunkForTranslation => '' @ err)]\<rparr>)"
proof -
  let ?st = "st\<lparr>pcmBuffer := []\<rparr>"
  let ?r = "transform w ?st (pcmBuffer st)"
  have "fst ?r = Inl err"
    by (rule transform_stage_throws [where recognized = recognized and translated = translated and ttsPcm = ttsPcm])
       (use stage in \<open>simp add: wav_conversion_throws_def wav_conversion_ok_def\<close>)
  then have t: "?r = (Inl err, snd ?r)" by (rule io_split_throw)
  have fin: "flush_finish ?r later =
      later\<lparr>trace := trace later @ snd ?r @
        [LoggerError (''[HlsTranslationPlugin] flushChunkForTranslation => '' @ err)]\<rparr>" for later
    by (subst t) (simp add: flush_finish_def emit_def)
  show ?thesis
    unfolding flush_nonempty [OF buf] fin by (simp add: stdout_data_def)
qed

text \<open>C10 when the WAV conversion exits with code 1, and when the synthesis request is
  rejected.\<close>

theorem thrown_stage_discards_chunk_witness:
  "pcmBuffer st_buffered \<noteq> [] \<and>
   wav_conversion_throws w_wav_fails st_buffered (pcmBuffer st_buffered) ''ffmpeg pcm->wav code=1'' \<and>
   trace (flushChunkForTranslation w_wav_fails st_buffered) =
     trace st_buffered @
     [LoggerError ''[HlsTranslationPlugin] flushChunkForTranslation => ffmpeg pcm->wav code=1''] \<and>
   ttsQueue (flushChunkForTranslation w_wav_fails st_buffered) = [] \<and>
   dispatching (flushChunkForTranslation w_wav_fails st_buffered) = [] \<and>
   pcmBuffer (flushChunkForTranslation w_wav_fails st_buffered) = [] \<and>
   pcmBuffer (stdout_data [9] (flushChunkForTranslation w_wav_fails st_buffered)) = [9] \<and>
   wav_conversion_ok w_synthesis_rejected st_buffered (pcmBuffer st_buffered) \<and>
   fst (openAiStt w_synthesis_rejected (tmpPath w_synthesis_rejected) (sttLanguage st_buffered)) =
     Inr [] \<and>
   fst (libreTranslate w_synthesis_rejected [] (targetLanguage st_buffered)
          (translateUrl st_buffered) (translateApiKey st_buffered)) = Inr [] \<and>
   synthesis_throws w_synthesis_rejected [] (ttsVoiceId st_buffered) ''fetch failed'' \<and>
   trace (flushChunkForTranslation w_synthesis_rejected st_buffered) =
     trace st_buffered @
     snd (transform w_synthesis_rejected (st_buffered\<lparr>pcmBuffer := []\<rparr>) (pcmBuffer st_buffered)) @
     [LoggerError ''[HlsTranslationPlugin] flushChunkForTranslation => fetch failed''] \<and>
   ttsQueue (flushChunkForTranslation w_synthesis_rejected st_buffered) = [] \<and>
   dispatching (flushChunkForTranslation w_synthesis_rejected st_buffered) = []"
proof -
  have h1: "pcmBuffer st_buffered \<noteq> []" by (simp add: st_buffered_def plugin_defs)
  have q: "ttsQueue st_buffered = []" "dispatching st_buffered = []"
    by (simp_all add: st_buffered_def plugin_defs)
  have one: "show_int 1 = ''1''" by (simp add: show_int_def show_nat.simps)
  have a: "wav_conversion_throws w_wav_fails st_buffered (pcmBuffer st_buffered)
             ''ffmpeg pcm->wav code=1''"
    by (simp add: wav_conversion_throws_def world_defs one)
  have ev: "snd (transform w_wav_fails (st_buffered\<lparr>pcmBuffer := []\<rparr>) (pcmBuffer st_buffered)) = []"
    by (simp add: transform_def convertPcmToWav_def world_defs)
  have b1: "wav_conversion_ok w_synthesis_rejected st_buffered (pcmBuffer st_buffered)"
    by (simp add: wav_conversion_ok_def world_defs)
  have b2: "fst (openAiStt w_synthesis_rejected (tmpPath w_synthesis_rejected)
                  (sttLanguage st_buffered)) = Inr []"
    by (simp add: openAiStt_def world_defs)
  have b3: "fst (libreTranslate w_synthesis_rejected [] (targetLanguage st_buffered)
                  (translateUrl st_buffered) (translateApiKey st_buffered)) = Inr []"
    by (simp add: libreTranslate_def)
  have b4: "synthesis_throws w_synthesis_rejected [] (ttsVoiceId st_buffered) ''fetch failed''"
    by (simp add: synthesis_throws_def request_throws_def world_defs)
  have A: "trace (flushChunkForTranslation w_wav_fails st_buffered) =
             trace st_buffered @
             snd (transform w_wav_fails (st_buffered\<lparr>pcmBuffer := []\<rparr>) (pcmBuffer st_buffered)) @
             [LoggerError (''[HlsTranslationPlugin] flushChunkForTranslation => '' @
                ''ffmpeg pcm->wav code=1'')] \<and>
           ttsQueue (flushChunkForTranslation w_wav_fails st_buffered) = ttsQueue st_buffered \<and>
           dispatching (flushChunkForTranslation w_wav_fails st_buffered) = dispatching st_buffered \<and>
           pcmBuffer (flushChunkForTranslation w_wav_fails st_buffered) = [] \<and>
           pcmBuffer (stdout_data [9] (flushChunkForTranslation w_wav_fails st_buffered)) = [9]"
    using thrown_stage_discards_chunk [of st_buffered w_wav_fails _ _ _ _ "[9]", OF h1] a by blast
  have B: "trace (flushChunkForTranslation w_synthesis_rejected st_buffered) =
             trace st_buffered @
             snd (transform w_synthesis_rejected (st_buffered\<lparr>pcmBuffer := []\<rparr>)
                    (pcmBuffer st_buffered)) @
             [LoggerError (''[HlsTranslationPlugin] flushChunkForTranslation => '' @
                ''fetch failed'')] \<and>
           ttsQueue (flushChunkForTranslation w_synthesis_rejected st_buffered) = ttsQueue st_buffered \<and>
           dispatching (flushChunkForTranslation w_synthesis_rejected st_buffered) =
             dispatching st_buffered"
    using thrown_stage_discards_chunk
      [of st_buffered w_synthesis_rejected "''fetch failed''" "[]" "[]" _ "[]", OF h1]
      b1 b2 b3 b4 by blast
  show ?thesis
    using h1 a b1 b2 b3 b4 A B by (simp add: ev q)
qed





section \<open>The consumer of the playback queue\<close>

text \<open>As long as \<open>cleanup\<close> is not called, at most one consumer loop exists.\<close>

lemma single_consumer_step:
  assumes "single_consumer st" "a \<noteq> Cleanup"
  shows "single_consumer (step a st)"
proof (cases a)
  case (PipelineDone ttsPcm)
  then show ?thesis
    using assms
    by (auto simp: single_consumer_def flush_finish_def processTtsQueue_def ttsQueue_push_def
          loop_test_def emit_def split: list.splits)
next
  case (DispatchDone k)
  then show ?thesis
    using assms
    by (cases "dispatching st")
       (auto simp: single_consumer_def dispatch_done_def loop_test_def split: list.splits)
next
  case Cleanup
  then show ?thesis using assms by simp
qed

lemma single_consumer_run:
  assumes "single_consumer st" "Cleanup \<notin> set acts"
  shows "single_consumer (run acts st)"
  using assms unfolding run_def
proof (induction acts arbitrary: st)
  case Nil
  then show ?case by simp
next
  case (Cons a acts)
  have "a \<noteq> Cleanup" using Cons.prems(2) by auto
  then have "single_consumer (step a st)" using Cons.prems(1) by (intro single_consumer_step)
  then show ?case using Cons.IH Cons.prems(2) by simp
qed

text \<open>
  C2 fails on the code after \<open>cleanup\<close>. The first audio starts a consumer loop, which
  suspends in its dispatch with the flag set; \<open>cleanup\<close> clears the flag and leaves
  the loop suspended; the audio of a pipeline run that was still in flight then starts
  a second loop: two arrays are being dispatched at once.
\<close>

theorem cleanup_lets_second_consumer_start:
  "dispatching (run [PipelineDone [1]] st_ready) = [[1]] \<and>
   ttsProcessing (run [PipelineDone [1]] st_ready) \<and>
   dispatching (run [PipelineDone [1], Cleanup, PipelineDone [2]] st_ready) = [[1], [2]]"
  by (simp add: run_def plugin_defs flush_defs dispatch_done_def cleanup_def)

section \<open>Frame pacer\<close>

lemma copy_samples_eq:
  assumes "dst < length h" "src < length h" "src \<noteq> dst"
    and "offset + n \<le> length (h ! src)" "n \<le> length (h ! dst)"
  shows "copy_samples dst src offset n h =
         h[dst := take n (drop offset (h ! src)) @ drop n (h ! dst)]"
  using assms(4,5)
proof (induction n)
  case 0
  then show ?case by (simp add: copy_samples_def)
next
  case (Suc n)
  let ?s = "h ! src" and ?d = "h ! dst"
  let ?h1 = "h[dst := take n (drop offset ?s) @ drop n ?d]"
  have IH: "copy_samples dst src offset n h = ?h1" using Suc by simp
  have step: "copy_samples dst src offset (Suc n) h =
        wr (copy_samples dst src offset n h) dst n (rd (copy_samples dst src offset n h) src (offset + n))"
    by (simp add: copy_samples_def)
  have r: "rd ?h1 src (offset + n) = ?s ! (offset + n)"
    using assms(1-3) Suc.prems by (simp add: rd_def)
  have la: "length (take n (drop offset ?s)) = n" using Suc.prems by simp
  have d: "drop n ?d = ?d ! n # drop (Suc n) ?d"
    using Suc.prems by (simp add: Cons_nth_drop_Suc)
  have t: "take (Suc n) (drop offset ?s) = take n (drop offset ?s) @ [?s ! (offset + n)]"
    using Suc.prems by (simp add: take_Suc_conv_app_nth)
  have "(take n (drop offset ?s) @ drop n ?d)[n := ?s ! (offset + n)]
        = take (Suc n) (drop offset ?s) @ drop (Suc n) ?d"
    unfolding t d using la by (simp add: list_update_append)
  then show ?case
    using assms(1) by (simp add: step IH r wr_def)
qed

lemma new_frame_full:
  assumes "src < length h" "offset + F \<le> length (h ! src)"
  shows "copy_samples (length h) src offset F (h @ [replicate F 0])
         = h @ [take F (drop offset (h ! src))]"
proof -
  let ?h1 = "h @ [replicate F (0::sample)]"
  have "copy_samples (length h) src offset F ?h1 =
        ?h1[length h := take F (drop offset (?h1 ! src)) @ drop F (?h1 ! length h)]"
    using assms by (intro copy_samples_eq) (auto simp: nth_append)
  then show ?thesis using assms by (simp add: nth_append)
qed

lemma new_frame_pad:
  assumes "src < length h" "offset + n = length (h ! src)" "n \<le> F"
  shows "copy_samples (length h) src offset n (h @ [replicate F 0])
         = h @ [drop offset (h ! src) @ replicate (F - n) 0]"
proof -
  let ?h1 = "h @ [replicate F (0::sample)]"
  have "copy_samples (length h) src offset n ?h1 =
        ?h1[length h := take n (drop offset (?h1 ! src)) @ drop n (?h1 ! length h)]"
    using assms by (intro copy_samples_eq) (auto simp: nth_append)
  then show ?thesis using assms by (simp add: nth_append)
qed

lemma send_full_frames_run:
  assumes "0 < F" "rawPcm < length h"
    and "offset + m * F \<le> length (h ! rawPcm)" "length (h ! rawPcm) < offset + Suc m * F"
  shows "send_full_frames st rawPcm F offset h ev =
         Some (offset + m * F,
               h @ map (full_frame (h ! rawPcm) F offset) [0..<m],
               ev @ full_events st (h ! rawPcm) F offset (length h) m)"
  using assms(2-4)
proof (induction m arbitrary: offset h ev)
  case 0
  then show ?case
    by (subst send_full_frames.simps) (simp add: full_events_def)
next
  case (Suc m)
  let ?src = "h ! rawPcm"
  let ?h2 = "h @ [take F (drop offset ?src)]"
  have le: "offset + F \<le> length ?src" using Suc.prems by simp
  have src2: "?h2 ! rawPcm = ?src" using Suc.prems by (simp add: nth_append)
  have unfold: "send_full_frames st rawPcm F offset h ev =
        send_full_frames st rawPcm F (offset + F) ?h2
          (ev @ [PushLocalAudio (length h) (take F (drop offset ?src)) (sampleRate st) (channels st),
                 SetTimeout 10])"
    using le Suc.prems(1)
    by (subst send_full_frames.simps)
       (simp add: newInt16Array_def new_frame_full push_frame_def Let_def)
  have rec: "send_full_frames st rawPcm F (offset + F) ?h2 ev' =
        Some (offset + F + m * F,
              ?h2 @ map (full_frame (?h2 ! rawPcm) F (offset + F)) [0..<m],
              ev' @ full_events st (?h2 ! rawPcm) F (offset + F) (length ?h2) m)" for ev'
    using Suc.prems by (intro Suc.IH) (simp_all add: nth_append algebra_simps)
  have frames: "map (full_frame ?src F offset) [0..<Suc m] =
        take F (drop offset ?src) # map (full_frame ?src F (offset + F)) [0..<m]"
    by (simp add: map_upt_Suc full_frame_def algebra_simps del: upt_Suc)
  have events: "full_events st ?src F offset (length h) (Suc m) =
        [PushLocalAudio (length h) (take F (drop offset ?src)) (sampleRate st) (channels st),
         SetTimeout 10] @ full_events st ?src F (offset + F) (Suc (length h)) m"
    by (simp add: full_events_def map_upt_Suc full_frame_def algebra_simps del: upt_Suc)
  show ?case
    unfolding unfold rec src2 frames events by (simp add: algebra_simps)
qed

lemma pushed_frames_append: "pushed_frames (a @ b) = pushed_frames a @ pushed_frames b"
  by (induction a rule: pushed_frames.induct) simp_all

lemma pushed_addrs_append: "pushed_addrs (a @ b) = pushed_addrs a @ pushed_addrs b"
  by (induction a rule: pushed_addrs.induct) simp_all

lemma timeouts_append: "timeouts (a @ b) = timeouts a @ timeouts b"
  by (induction a rule: timeouts.induct) simp_all

lemma pushed_frames_full_events:
  "pushed_frames (full_events st src F offset base m) = map (full_frame src F offset) [0..<m]"
  by (induction m) (simp_all add: full_events_def pushed_frames_append)

lemma pushed_addrs_full_events:
  "pushed_addrs (full_events st src F offset base m) = [base..<base + m]"
  by (induction m) (simp_all add: full_events_def pushed_addrs_append)

lemma timeouts_full_events: "timeouts (full_events st src F offset base m) = replicate m 10"
  by (induction m) (simp_all add: full_events_def timeouts_append replicate_append_same)

lemma concat_full_frames: "concat (map (full_frame src F 0) [0..<m]) = take (m * F) src"
proof (induction m)
  case 0
  then show ?case by simp
next
  case (Suc m)
  have "take (m * F) src @ take F (drop (m * F) src) = take (m * F + F) src"
    by (simp add: take_add)
  then show ?case using Suc by (simp add: full_frame_def add.commute)
qed

lemma length_full_frame:
  assumes "k < m" "m * F \<le> length src"
  shows "length (full_frame src F 0 k) = F"
proof -
  have "Suc k * F \<le> m * F" using assms(1) by (intro mult_le_mono1) simp
  then have "k * F + F \<le> length src" using assms(2) by simp
  then show ?thesis by (simp add: full_frame_def)
qed

lemma nth_fresh: "map ((!) (h @ fs)) [length h..<length h + length fs] = fs"
  by (intro nth_equalityI) (simp_all add: nth_append)

lemma ceil_div:
  assumes "0 < (F::nat)"
  shows "(L + F - 1) div F = L div F + (if L mod F = 0 then 0 else 1)"
proof -
  obtain q r where qr: "q = L div F" "r = L mod F" by simp
  have L: "L = q * F + r" using qr by simp
  have r: "r < F" using qr assms by simp
  have dm: "(a + c * F) div F = c + a div F" for a c
    using assms by (intro div_mult_self1) simp
  show ?thesis
  proof (cases "r = 0")
    case True
    have e: "L + F - 1 = (F - 1) + q * F" using assms L True by simp
    have "(L + F - 1) div F = q + (F - 1) div F"
      unfolding e by (rule dm)
    then show ?thesis using True assms qr by simp
  next
    case False
    have e: "L + F - 1 = (r - 1) + (q + 1) * F" using assms L False by simp
    have "(L + F - 1) div F = (q + 1) + (r - 1) div F"
      unfolding e by (rule dm)
    moreover have "(r - 1) div F = 0" using r by simp
    ultimately show ?thesis using False qr by simp
  qed
qed

text \<open>What the pacer returns, written out.\<close>

lemma sendTtsPcmToJanus_result:
  assumes "janus st" "0 < frameSizeSamples st" "rawPcm < length h"
  shows "sendTtsPcmToJanus st rawPcm h =
     (let F = frameSizeSamples st; src = h ! rawPcm; L = length src; m = L div F;
          pad = drop (m * F) src @ replicate (F - L mod F) 0
      in if L mod F = 0 then
           Some (h @ map (full_frame src F 0) [0..<m], full_events st src F 0 (length h) m)
         else
           Some (h @ map (full_frame src F 0) [0..<m] @ [pad],
                 full_events st src F 0 (length h) m @
                 [PushLocalAudio (length h + m) pad (sampleRate st) (channels st), SetTimeout 10]))"
proof -
  define F where "F = frameSizeSamples st"
  define src where "src = h ! rawPcm"
  define m where "m = length src div F"
  define r where "r = length src mod F"
  define h1 where "h1 = h @ map (full_frame src F 0) [0..<m]"
  define evs where "evs = full_events st src F 0 (length h) m"
  have F: "0 < F" using assms(2) by (simp add: F_def)
  have b1: "0 + m * F \<le> length (h ! rawPcm)" by (simp add: m_def src_def)
  have b2: "length (h ! rawPcm) < 0 + Suc m * F"
    using dividend_less_div_times[OF F, of "length src"]
    by (simp add: algebra_simps m_def src_def)
  have loop: "send_full_frames st rawPcm F 0 h [] = Some (m * F, h1, evs)"
    using send_full_frames_run [OF F assms(3) b1 b2, of st "[]"]
    by (simp add: h1_def evs_def src_def)
  have src1: "h1 ! rawPcm = src" using assms(3) by (simp add: h1_def src_def nth_append)
  have len1: "length h1 = length h + m" by (simp add: h1_def)
  have left: "length src - m * F = r" by (simp add: m_def r_def minus_div_mult_eq_mod)
  have lt: "r < F" using F by (simp add: r_def)
  have rhs: "(let F = frameSizeSamples st; src = h ! rawPcm; L = length src; m = L div F;
          pad = drop (m * F) src @ replicate (F - L mod F) 0
      in if L mod F = 0 then
           Some (h @ map (full_frame src F 0) [0..<m], full_events st src F 0 (length h) m)
         else
           Some (h @ map (full_frame src F 0) [0..<m] @ [pad],
                 full_events st src F 0 (length h) m @
                 [PushLocalAudio (length h + m) pad (sampleRate st) (channels st), SetTimeout 10]))
    = (if r = 0 then Some (h1, evs)
       else Some (h1 @ [drop (m * F) src @ replicate (F - r) 0],
                  evs @ [PushLocalAudio (length h1) (drop (m * F) src @ replicate (F - r) 0)
                           (sampleRate st) (channels st), SetTimeout 10]))"
    by (simp add: Let_def F_def src_def m_def r_def h1_def evs_def)
  have lhs: "sendTtsPcmToJanus st rawPcm h =
      (if 0 < r \<and> r < F then
         Some (copy_samples (length h1) rawPcm (m * F) r (h1 @ [replicate F 0]),
               evs @ push_frame st (copy_samples (length h1) rawPcm (m * F) r (h1 @ [replicate F 0]))
                       (length h1))
       else Some (h1, evs))"
    unfolding sendTtsPcmToJanus_def F_def[symmetric] loop
    using assms(1) by (simp add: src1 left Let_def newInt16Array_def del: zero_less_diff)
  have pad: "copy_samples (length h1) rawPcm (m * F) r (h1 @ [replicate F 0])
          = h1 @ [drop (m * F) (h1 ! rawPcm) @ replicate (F - r) 0]"
  proof (rule new_frame_pad)
    show "rawPcm < length h1" using assms(3) len1 by simp
    show "m * F + r = length (h1 ! rawPcm)" by (simp add: src1 m_def r_def)
    show "r \<le> F" using lt by simp
  qed
  show ?thesis
    unfolding rhs lhs pad using lt by (simp add: push_frame_def src1)
qed

lemma frame_pacer_frames_by_frame_size:
  assumes "janus st" "0 < frameSizeSamples st" "rawPcm < length h"
  shows "\<exists>h' ev. sendTtsPcmToJanus st rawPcm h = Some (h', ev) \<and>
     (let F = frameSizeSamples st; L = length (h ! rawPcm); n = (L + F - 1) div F in
        length (pushed_frames ev) = n \<and>
        (\<forall>f \<in> set (pushed_frames ev). length f = F) \<and>
        concat (pushed_frames ev) = h ! rawPcm @ replicate (n * F - L) 0 \<and>
        F dvd length (concat (pushed_frames ev)) \<and>
        pushed_addrs ev = [length h..<length h + n] \<and>
        map ((!) h') (pushed_addrs ev) = pushed_frames ev \<and>
        take (length h) h' = h \<and>
        timeouts ev = replicate n 10)"
proof -
  define F where "F = frameSizeSamples st"
  define src where "src = h ! rawPcm"
  define L where "L = length src"
  define m where "m = L div F"
  define r where "r = L mod F"
  define n where "n = (L + F - 1) div F"
  define fulls where "fulls = map (full_frame src F 0) [0..<m]"
  define pad where "pad = drop (m * F) src @ replicate (F - r) 0"
  define fs where "fs = fulls @ (if r = 0 then [] else [pad])"
  define ev where "ev = full_events st src F 0 (length h) m @
     (if r = 0 then [] else [PushLocalAudio (length h + m) pad (sampleRate st) (channels st), SetTimeout 10])"
  have F: "0 < F" using assms(2) by (simp add: F_def)
  have Lmr: "L = m * F + r" by (simp add: m_def r_def)
  have r: "r < F" using F by (simp add: r_def)
  have n: "n = m + (if r = 0 then 0 else 1)"
    unfolding n_def m_def r_def by (rule ceil_div [OF F])
  have res: "sendTtsPcmToJanus st rawPcm h = Some (h @ fs, ev)"
    unfolding sendTtsPcmToJanus_result [OF assms]
    by (simp add: Let_def F_def src_def L_def m_def r_def fulls_def pad_def fs_def ev_def)
  have len_fulls: "length fulls = m" by (simp add: fulls_def)
  have len_fs: "length fs = n" by (simp add: fs_def len_fulls n)
  have pf: "pushed_frames ev = fs"
    by (simp add: ev_def fs_def fulls_def pushed_frames_append pushed_frames_full_events)
  have pa: "pushed_addrs ev = [length h..<length h + n]"
    by (simp add: ev_def pushed_addrs_append pushed_addrs_full_events n)
  have tm: "timeouts ev = replicate n 10"
    by (simp add: ev_def timeouts_append timeouts_full_events n replicate_append_same)
  have full_len: "length f = F" if "f \<in> set fulls" for f
  proof -
    from that obtain k where "k < m" "f = full_frame src F 0 k" by (auto simp: fulls_def)
    moreover have "m * F \<le> length src" using Lmr by (simp add: L_def)
    ultimately show ?thesis by (simp add: length_full_frame)
  qed
  have pad_len: "length pad = F" using r Lmr by (simp add: pad_def L_def[symmetric])
  have each: "\<forall>f \<in> set fs. length f = F"
    using full_len pad_len by (auto simp: fs_def)
  have cf: "concat fulls = take (m * F) src" by (simp add: fulls_def concat_full_frames)
  have zeros: "n * F - L = (if r = 0 then 0 else F - r)" using n Lmr by simp
  have cat: "concat fs = src @ replicate (n * F - L) 0"
  proof (cases "r = 0")
    case True
    then have "take (m * F) src = src" using Lmr by (simp add: L_def)
    then show ?thesis using True by (simp add: fs_def cf zeros)
  next
    case False
    have "take (m * F) src @ drop (m * F) src = src" by simp
    then show ?thesis using False by (simp add: fs_def cf zeros pad_def del: append_take_drop_id)
  qed
  have "length (concat fs) = n * F"
    using Lmr n r by (simp add: cat zeros L_def[symmetric] algebra_simps)
  then have dv: "F dvd length (concat fs)" by simp
  have fresh: "map ((!) (h @ fs)) [length h..<length h + n] = fs"
    using nth_fresh [of h fs] by (simp add: len_fs)
  have keep: "take (length h) (h @ fs) = h" by simp
  show ?thesis
    unfolding Let_def F_def[symmetric] src_def[symmetric] L_def[symmetric] n_def[symmetric]
    using res len_fs each cat dv pa fresh keep tm by (auto simp: pf)
qed

lemma st_stereo_fields: "janus st_stereo" "sampleRate st_stereo = 250" "channels st_stereo = 2"
  by (simp_all add: st_stereo_def onJanusReady_def startHlsReading_def emit_def constructor_def
        cfg_default_def)

text \<open>
  C3. With a sink attached and a frame size
  \<open>F = floor(sampleRate * 0.01) * channels > 0\<close>, for a source array of \<open>L\<close> samples
  the pacer returns, having pushed \<open>(L + F - 1) div F\<close> frames (the ceiling of \<open>L / F\<close>),
  each \<open>F\<close> samples long; the frames in order are the source followed by zeros up to a
  multiple of \<open>F\<close>; every frame is a newly allocated array (its address is beyond the
  store the pacer was given, so it is neither the source nor another frame), it still
  holds what was pushed, and the arrays that existed before are unchanged; each push
  is followed by one 10 ms wait.
\<close>

theorem frame_pacer_frames:
  assumes "janus st" "0 < sampleRate st div 100 * channels st" "rawPcm < length h"
  shows "\<exists>h' ev. sendTtsPcmToJanus st rawPcm h = Some (h', ev) \<and>
     (let F = sampleRate st div 100 * channels st; L = length (h ! rawPcm);
          n = (L + F - 1) div F in
        length (pushed_frames ev) = n \<and>
        (\<forall>f \<in> set (pushed_frames ev). length f = F) \<and>
        concat (pushed_frames ev) = h ! rawPcm @ replicate (n * F - L) 0 \<and>
        F dvd length (concat (pushed_frames ev)) \<and>
        pushed_addrs ev = [length h..<length h + n] \<and>
        map ((!) h') (pushed_addrs ev) = pushed_frames ev \<and>
        take (length h) h' = h \<and>
        timeouts ev = replicate n 10)"
  by (rule frame_pacer_frames_by_frame_size [unfolded frameSizeSamples_def, OF assms])

text \<open>C3 on nine samples at sample rate 250 with two channels: frames of four.\<close>

theorem frame_pacer_frames_witness:
  "janus st_stereo \<and> 0 < sampleRate st_stereo div 100 * channels st_stereo \<and>
   (0::nat) < length [[1, 2, 3, 4, 5, 6, 7, 8, 9 :: sample]] \<and>
   (\<exists>h' ev. sendTtsPcmToJanus st_stereo 0 [[1, 2, 3, 4, 5, 6, 7, 8, 9]] = Some (h', ev) \<and>
      length (pushed_frames ev) = 3 \<and>
      (\<forall>f \<in> set (pushed_frames ev). length f = 4) \<and>
      concat (pushed_frames ev) = [1, 2, 3, 4, 5, 6, 7, 8, 9, 0, 0, 0] \<and>
      pushed_addrs ev = [1, 2, 3] \<and>
      timeouts ev = [10, 10, 10])"
proof -
  have h1: "janus st_stereo" by (rule st_stereo_fields)
  have F: "sampleRate st_stereo div 100 * channels st_stereo = 4"
    by (simp add: st_stereo_fields)
  have h2: "0 < sampleRate st_stereo div 100 * channels st_stereo" by (simp add: F)
  have h3: "(0::nat) < length [[1, 2, 3, 4, 5, 6, 7, 8, 9 :: sample]]" by simp
  have n: "(9 + 4 - 1) div 4 = (3::nat)" "3 * 4 - 9 = (3::nat)" by simp_all
  have u: "[Suc 0..<3] = [Suc 0, 2]" by (simp add: upt_rec)
  have rp: "replicate 3 (0::sample) = [0, 0, 0]" "replicate 3 (10::nat) = [10, 10, 10]"
    by (simp_all add: numeral_3_eq_3)
  from frame_pacer_frames [OF h1 h2 h3]
  show ?thesis
    using h1 h2 by (simp add: F Let_def n u rp, blast)
qed

text \<open>A run computed: seven samples at sample rate 300 with one channel.\<close>

lemma st_sink_frame_size: "frameSizeSamples st_sink = 3"
  by (simp add: st_sink_def st_no_sink_def onJanusReady_def startHlsReading_def emit_def constructor_def
        cfg_default_def frameSizeSamples_def)

lemma st_sink_fields: "janus st_sink" "sampleRate st_sink = 300" "channels st_sink = 1"
  by (simp_all add: st_sink_def st_no_sink_def onJanusReady_def startHlsReading_def emit_def constructor_def
        cfg_default_def)

lemma frame_pacer_example:
  "sendTtsPcmToJanus st_sink 0 [[1, 2, 3, 4, 5, 6, 7]] =
     Some ([[1, 2, 3, 4, 5, 6, 7], [1, 2, 3], [4, 5, 6], [7, 0, 0]],
           [PushLocalAudio 1 [1, 2, 3] 300 1, SetTimeout 10,
            PushLocalAudio 2 [4, 5, 6] 300 1, SetTimeout 10,
            PushLocalAudio 3 [7, 0, 0] 300 1, SetTimeout 10])"
  by (simp add: sendTtsPcmToJanus_def send_full_frames.simps st_sink_frame_size st_sink_fields
        newInt16Array_def copy_samples_def wr_def rd_def push_frame_def Let_def upt_rec
        numeral_3_eq_3 nth_append)

text \<open>With a frame size of 0 the loop of full frames never ends.\<close>

lemma copy_samples_none: "copy_samples dst src offset 0 h = h"
  by (simp add: copy_samples_def)

lemma zero_frame_size_loops:
  assumes "send_full_frames st rawPcm F offset h ev = Some res"
  shows "\<not> (F = 0 \<and> rawPcm < length h \<and> offset \<le> length (h ! rawPcm))"
proof (rule send_full_frames.raw_induct
    [where P = "\<lambda>st rawPcm F offset h ev res.
                  \<not> (F = 0 \<and> rawPcm < length h \<and> offset \<le> length (h ! rawPcm))",
     OF _ assms])
  fix send and st' :: plugin and src F' offset' :: nat and h' :: store
    and ev' :: "event list" and res' :: "nat \<times> store \<times> event list"
  assume IH: "\<And>a b c d e f y. send a b c d e f = Some y \<Longrightarrow>
                \<not> (c = 0 \<and> b < length e \<and> d \<le> length (e ! b))"
    and eq: "(if offset' + F' \<le> length (h' ! src)
              then let h1 = snd (newInt16Array F' h');
                       frame = fst (newInt16Array F' h');
                       h2 = copy_samples frame src offset' F' h1
                   in send st' src F' (offset' + F') h2 (ev' @ push_frame st' h2 frame)
              else Some (offset', h', ev')) = Some res'"
  show "\<not> (F' = 0 \<and> src < length h' \<and> offset' \<le> length (h' ! src))"
  proof
    assume a: "F' = 0 \<and> src < length h' \<and> offset' \<le> length (h' ! src)"
    then have "send st' src 0 offset' (h' @ [[]]) (ev' @ push_frame st' (h' @ [[]]) (length h'))
               = Some res'"
      using eq by (simp add: newInt16Array_def copy_samples_none Let_def)
    from IH [OF this] show False using a by (simp add: nth_append)
  qed
qed

lemma zero_frame_size_never_returns:
  assumes "frameSizeSamples st = 0" "janus st" "rawPcm < length h"
  shows "sendTtsPcmToJanus st rawPcm h = None"
proof -
  have "send_full_frames st rawPcm 0 0 h [] = None"
  proof (cases "send_full_frames st rawPcm 0 0 h []")
    case None then show ?thesis .
  next
    case (Some res)
    from zero_frame_size_loops [OF this] assms(3) show ?thesis by simp
  qed
  then show ?thesis using assms by (simp add: sendTtsPcmToJanus_def)
qed

text \<open>
  C8, as stated, fails: without a sink the pacer returns after the warning; for four
  samples and frames of three no wait is awaited (and no frame is built).
\<close>

theorem no_sink_skips_pacing_counterexample:
  "\<not> janus st_no_sink \<and> frameSizeSamples st_no_sink = 3 \<and>
   sendTtsPcmToJanus st_no_sink 0 [[1, 2, 3, 4]] =
     Some ([[1, 2, 3, 4]], [LoggerWarn ''[HlsTranslationPlugin] sendTtsPcmToJanus => no Janus client'']) \<and>
   timeouts (snd (the (sendTtsPcmToJanus st_no_sink 0 [[1, 2, 3, 4]]))) = []"
  by (simp add: st_no_sink_def constructor_def cfg_default_def sendTtsPcmToJanus_def
        frameSizeSamples_def)

text \<open>
  C8 (amended). When no sink is attached at dispatch time, the pacer surfaces one
  warning and returns at once: the whole audio is dropped, no frame is built or pushed,
  and no pacing delay elapses.
\<close>

theorem no_sink_returns_at_once:
  assumes "\<not> janus st"
  shows "sendTtsPcmToJanus st rawPcm h =
           Some (h, [LoggerWarn ''[HlsTranslationPlugin] sendTtsPcmToJanus => no Janus client''])"
  using assms by (simp add: sendTtsPcmToJanus_def)

text \<open>C8 (amended) on three samples.\<close>

theorem no_sink_returns_at_once_witness:
  "\<not> janus st_no_sink \<and>
   sendTtsPcmToJanus st_no_sink 0 [[5, 6, 7]] =
     Some ([[5, 6, 7]], [LoggerWarn ''[HlsTranslationPlugin] sendTtsPcmToJanus => no Janus client''])"
proof -
  have h: "\<not> janus st_no_sink" by (simp add: st_no_sink_def constructor_def)
  from no_sink_returns_at_once [OF h] h show ?thesis by simp
qed

end

